theory Spec2Isabelle
  imports Main "HOL-Library.Char_ord" "HOL-Library.List_Lexorder" "HOL-Library.Multiset"
begin

section \<open>Data\<close>

text \<open>
  A holiday entry is the Python dictionary \<^verbatim>\<open>{"date": ..., "name": ...}\<close> with two string
  values. A string is the list of its characters (code points below 256); strings are
  ordered as Python orders them, character by character (\<open>List_Lexorder\<close> over
  \<open>Char_ord\<close>).
\<close>

record entry =
  date :: string
  name :: string

text \<open>
  The rows of \<^verbatim>\<open>holidays_gcal_fetch.py\<close> carry two more fields. Functions that read only
  the date are written over \<open>'a entry_scheme\<close> and so apply to both.
\<close>

record row = entry +
  calendarId :: string
  gcal_event_id :: string

text \<open>
  An item of a response of the calendar source, as \<^verbatim>\<open>json.load\<close> gives it. A member of
  the \<^verbatim>\<open>start\<close> object is absent, the JSON \<^verbatim>\<open>null\<close> (Python's \<^verbatim>\<open>None\<close>) or a string; the
  \<^verbatim>\<open>start\<close> member itself is absent, \<^verbatim>\<open>null\<close> or an object with the members \<^verbatim>\<open>date\<close> and
  \<^verbatim>\<open>dateTime\<close>. For \<^verbatim>\<open>item.get("summary", "")\<close> and \<^verbatim>\<open>item.get("id", "")\<close>, \<open>None\<close> is a
  key that is absent.
\<close>

datatype member = Absent | Null | Text string

datatype start_marker = NoStart | NullStart | Start member member

record raw_event =
  start :: start_marker
  summary :: "string option"
  event_id :: "string option"

text \<open>The exceptions the modelled code raises or lets through.\<close>

datatype exn =
    RuntimeError string
  | ValueError
  | FileExistsError
  | JSONDecodeError
  | UnicodeDecodeError
  | KeyError
  | TypeError
  | AttributeError

text \<open>
  The request that \<^verbatim>\<open>build_calendar_url\<close> encodes in a URL. \<open>timeMin\<close> and \<open>timeMax\<close>
  hold the year \<open>y\<close> of the instant \<^verbatim>\<open>f"{y}-01-01T00:00:00Z"\<close>.
\<close>

record request =
  req_calendar_id :: string
  req_key :: string
  timeMin :: int
  timeMax :: int
  pageToken :: "string option"

record response =
  items :: "raw_event list"
  nextPageToken :: "string option"

text \<open>\<^verbatim>\<open>http_get\<close>: the answer of the source to a request, or the \<^verbatim>\<open>RuntimeError\<close> it raises.\<close>

type_synonym http = "request \<Rightarrow> exn + response"

section \<open>Python's int() on a string\<close>

text \<open>
  \<^verbatim>\<open>int(s)\<close> for a string of code points below 256: white space around the literal, one
  optional sign, then decimal digits with single underscores between digits. \<open>None\<close> is
  \<^verbatim>\<open>ValueError\<close>.
\<close>

definition is_space :: "char \<Rightarrow> bool" where
  "is_space c = ((of_char c :: nat) \<in> {9, 10, 11, 12, 13, 32, 133, 160})"

definition is_digit :: "char \<Rightarrow> bool" where
  "is_digit c = (48 \<le> (of_char c :: nat) \<and> (of_char c :: nat) \<le> 57)"

definition digit_val :: "char \<Rightarrow> nat" where
  "digit_val c = of_char c - 48"

definition strip :: "string \<Rightarrow> string" where
  "strip s = rev (dropWhile is_space (rev (dropWhile is_space s)))"

fun parse_digits :: "nat \<Rightarrow> string \<Rightarrow> nat option" where
  "parse_digits acc [] = Some acc"
| "parse_digits acc [c] = (if is_digit c then Some (10 * acc + digit_val c) else None)"
| "parse_digits acc (c # d # cs) =
     (if is_digit c then parse_digits (10 * acc + digit_val c) (d # cs)
      else if c = CHR ''_'' \<and> is_digit d then parse_digits (10 * acc + digit_val d) cs
      else None)"

definition parse_nat :: "string \<Rightarrow> nat option" where
  "parse_nat s =
     (case s of
        [] \<Rightarrow> None
      | c # cs \<Rightarrow> if is_digit c then parse_digits (digit_val c) cs else None)"

definition py_int :: "string \<Rightarrow> int option" where
  "py_int s =
     (case strip s of
        [] \<Rightarrow> None
      | c # cs \<Rightarrow>
          if c = CHR ''+'' then map_option int (parse_nat cs)
          else if c = CHR ''-'' then map_option (\<lambda>n. - int n) (parse_nat cs)
          else map_option int (parse_nat (c # cs)))"

section \<open>update_holidays.py: fetch_holidays_from_gcal\<close>

text \<open>\<^verbatim>\<open>if page_token: params["pageToken"] = page_token\<close>: an empty token is left out.\<close>

definition build_calendar_url :: "string \<Rightarrow> string \<Rightarrow> int \<Rightarrow> int \<Rightarrow> string option \<Rightarrow> request" where
  "build_calendar_url cal api_key time_min time_max page_token =
     \<lparr>req_calendar_id = cal, req_key = api_key, timeMin = time_min, timeMax = time_max,
      pageToken = (if page_token = Some [] then None else page_token)\<rparr>"

text \<open>
  \<^verbatim>\<open>start = item.get("start", {})\<close> and
  \<^verbatim>\<open>start.get("date") or start.get("dateTime", "")[:10]\<close>. On a \<^verbatim>\<open>start\<close> that is \<^verbatim>\<open>null\<close>,
  \<^verbatim>\<open>start.get\<close> raises \<^verbatim>\<open>AttributeError\<close>. A date that is absent, \<^verbatim>\<open>null\<close> or empty is
  false, and the \<^verbatim>\<open>dateTime\<close> is sliced then: the default \<^verbatim>\<open>""\<close> stands only for an absent
  key, and slicing \<^verbatim>\<open>None\<close> raises \<^verbatim>\<open>TypeError\<close>.
\<close>

fun resolve_start :: "start_marker \<Rightarrow> exn + string" where
  "resolve_start NullStart = Inl AttributeError"
| "resolve_start NoStart = Inr []"
| "resolve_start (Start (Text (c # cs)) date_time) = Inr (c # cs)"
| "resolve_start (Start d Absent) = Inr []"
| "resolve_start (Start d Null) = Inl TypeError"
| "resolve_start (Start d (Text t)) = Inr (take 10 t)"

definition resolve_date :: "raw_event \<Rightarrow> exn + string" where
  "resolve_date item = resolve_start (start item)"

definition get_or_empty :: "string option \<Rightarrow> string" where
  "get_or_empty v = (case v of Some s \<Rightarrow> s | None \<Rightarrow> [])"

text \<open>
  The body of \<^verbatim>\<open>for item in data.get("items", [])\<close>: an item with a date gives one entry,
  an item with an empty resolved date is passed over, and an exception leaves the loop.
\<close>

definition item_to_holiday :: "raw_event \<Rightarrow> exn + entry option" where
  "item_to_holiday item =
     (case resolve_date item of
        Inl e \<Rightarrow> Inl e
      | Inr date_str \<Rightarrow>
          if date_str \<noteq> []
          then Inr (Some \<lparr>date = date_str @ ''T00:00:00.000Z'',
                           name = get_or_empty (summary item)\<rparr>)
          else Inr None)"

fun append_items :: "entry list \<Rightarrow> raw_event list \<Rightarrow> exn + entry list" where
  "append_items holidays [] = Inr holidays"
| "append_items holidays (item # rest) =
     (case item_to_holiday item of
        Inl e \<Rightarrow> Inl e
      | Inr (Some h) \<Rightarrow> append_items (holidays @ [h]) rest
      | Inr None \<Rightarrow> append_items holidays rest)"

text \<open>
  The \<^verbatim>\<open>while True\<close> loop over the pages. It ends when a response has no (or an empty)
  \<^verbatim>\<open>nextPageToken\<close>; a source that always sends one keeps it running, so the loop is
  given fuel and \<open>None\<close> is "has not returned". A failed request raises, and so does an
  item the loop body raises on.
\<close>

fun fetch_pages ::
  "nat \<Rightarrow> http \<Rightarrow> string \<Rightarrow> string \<Rightarrow> int \<Rightarrow> int \<Rightarrow> string option \<Rightarrow> entry list
     \<Rightarrow> (exn + entry list) option" where
  "fetch_pages 0 http_get cal api_key time_min time_max page_token holidays = None"
| "fetch_pages (Suc fuel) http_get cal api_key time_min time_max page_token holidays =
     (case http_get (build_calendar_url cal api_key time_min time_max page_token) of
        Inl e \<Rightarrow> Some (Inl e)
      | Inr data \<Rightarrow>
          (case append_items holidays (items data) of
             Inl e \<Rightarrow> Some (Inl e)
           | Inr holidays' \<Rightarrow>
               (let page_token' = nextPageToken data
                in if page_token' = None \<or> page_token' = Some []
                   then Some (Inr holidays')
                   else fetch_pages fuel http_get cal api_key time_min time_max page_token'
                          holidays')))"

text \<open>\<^verbatim>\<open>range(a, b)\<close> and \<^verbatim>\<open>year_set = set(range(start_year, end_year + 1))\<close>\<close>

definition py_range :: "int \<Rightarrow> int \<Rightarrow> int list" where
  "py_range a b = [a..b - 1]"

definition year_set :: "int \<Rightarrow> int \<Rightarrow> int set" where
  "year_set start_year end_year = set (py_range start_year (end_year + 1))"

text \<open>
  The condition of the year filter, \<^verbatim>\<open>h["date"] and int(h["date"][:4]) in year_set\<close>:
  an empty date is dropped without a call of \<^verbatim>\<open>int\<close>, and \<^verbatim>\<open>int\<close> may raise.
\<close>

definition in_years :: "int set \<Rightarrow> 'a entry_scheme \<Rightarrow> exn + bool" where
  "in_years years h =
     (if date h = [] then Inr False
      else case py_int (take 4 (date h)) of
             None \<Rightarrow> Inl ValueError
           | Some y \<Rightarrow> Inr (y \<in> years))"

fun filter_years :: "int set \<Rightarrow> 'a entry_scheme list \<Rightarrow> exn + 'a entry_scheme list" where
  "filter_years years [] = Inr []"
| "filter_years years (h # hs) =
     (case in_years years h of
        Inl e \<Rightarrow> Inl e
      | Inr keep \<Rightarrow>
          (case filter_years years hs of
             Inl e \<Rightarrow> Inl e
           | Inr kept \<Rightarrow> Inr (if keep then h # kept else kept)))"

text \<open>
  \<^verbatim>\<open>d[k] = v\<close> on a Python dictionary, which keeps its keys in the order of their first
  insertion: a key that is present keeps its place and takes the new value.
\<close>

fun dict_set :: "'k \<Rightarrow> 'v \<Rightarrow> ('k \<times> 'v) list \<Rightarrow> ('k \<times> 'v) list" where
  "dict_set k v [] = [(k, v)]"
| "dict_set k v (p # ps) = (if fst p = k then (k, v) # ps else p # dict_set k v ps)"

text \<open>
  \<^verbatim>\<open>
    unique_holidays = {}
    for holiday in filtered_holidays:
        unique_holidays[holiday["date"]] = holiday
    return list(unique_holidays.values())
  \<close>
\<close>

fun dedupe_loop :: "(string \<times> entry) list \<Rightarrow> entry list \<Rightarrow> (string \<times> entry) list" where
  "dedupe_loop unique_holidays [] = unique_holidays"
| "dedupe_loop unique_holidays (holiday # rest) =
     dedupe_loop (dict_set (date holiday) holiday unique_holidays) rest"

definition dedupe :: "entry list \<Rightarrow> entry list" where
  "dedupe filtered_holidays = map snd (dedupe_loop [] filtered_holidays)"

definition fetch_holidays_from_gcal ::
  "nat \<Rightarrow> http \<Rightarrow> string \<Rightarrow> string \<Rightarrow> int \<Rightarrow> int \<Rightarrow> (exn + entry list) option" where
  "fetch_holidays_from_gcal fuel http_get cal api_key start_year end_year =
     (case fetch_pages fuel http_get cal api_key start_year (end_year + 1) None [] of
        None \<Rightarrow> None
      | Some (Inl e) \<Rightarrow> Some (Inl e)
      | Some (Inr holidays) \<Rightarrow>
          (case filter_years (year_set start_year end_year) holidays of
             Inl e \<Rightarrow> Some (Inl e)
           | Inr filtered_holidays \<Rightarrow> Some (Inr (dedupe filtered_holidays))))"

section \<open>holidays_gcal_fetch.py: fetch_calendar_holidays\<close>

definition build_url :: "string \<Rightarrow> string \<Rightarrow> int \<Rightarrow> int \<Rightarrow> string option \<Rightarrow> request" where
  "build_url cal api_key time_min time_max page_token =
     \<lparr>req_calendar_id = cal, req_key = api_key, timeMin = time_min, timeMax = time_max,
      pageToken = (if page_token = Some [] then None else page_token)\<rparr>"

text \<open>
  Here every item gives a row, also one whose resolved date is empty; the filter drops
  it later.
\<close>

definition item_to_row :: "string \<Rightarrow> raw_event \<Rightarrow> exn + row" where
  "item_to_row cal item =
     (case resolve_date item of
        Inl e \<Rightarrow> Inl e
      | Inr date_str \<Rightarrow>
          Inr \<lparr>date = date_str, name = get_or_empty (summary item),
               calendarId = cal, gcal_event_id = get_or_empty (event_id item)\<rparr>)"

fun append_rows :: "string \<Rightarrow> row list \<Rightarrow> raw_event list \<Rightarrow> exn + row list" where
  "append_rows cal results [] = Inr results"
| "append_rows cal results (item # rest) =
     (case item_to_row cal item of
        Inl e \<Rightarrow> Inl e
      | Inr r \<Rightarrow> append_rows cal (results @ [r]) rest)"

fun fetch_rows ::
  "nat \<Rightarrow> http \<Rightarrow> string \<Rightarrow> string \<Rightarrow> int \<Rightarrow> int \<Rightarrow> string option \<Rightarrow> row list
     \<Rightarrow> (exn + row list) option" where
  "fetch_rows 0 http_get cal api_key time_min time_max page_token results = None"
| "fetch_rows (Suc fuel) http_get cal api_key time_min time_max page_token results =
     (case http_get (build_url cal api_key time_min time_max page_token) of
        Inl e \<Rightarrow> Some (Inl e)
      | Inr data \<Rightarrow>
          (case append_rows cal results (items data) of
             Inl e \<Rightarrow> Some (Inl e)
           | Inr results' \<Rightarrow>
               (let page_token' = nextPageToken data
                in if page_token' = None \<or> page_token' = Some []
                   then Some (Inr results')
                   else fetch_rows fuel http_get cal api_key time_min time_max page_token'
                          results')))"

text \<open>
  \<^verbatim>\<open>years\<close> is a tuple of years; \<^verbatim>\<open>min(years)\<close> raises \<^verbatim>\<open>ValueError\<close> on the empty one.
\<close>

definition fetch_calendar_holidays ::
  "nat \<Rightarrow> http \<Rightarrow> string \<Rightarrow> string \<Rightarrow> int list \<Rightarrow> (exn + row list) option" where
  "fetch_calendar_holidays fuel http_get cal api_key years =
     (if years = [] then Some (Inl ValueError)
      else case fetch_rows fuel http_get cal api_key (Min (set years)) (Max (set years) + 1) None [] of
             None \<Rightarrow> None
           | Some (Inl e) \<Rightarrow> Some (Inl e)
           | Some (Inr results) \<Rightarrow> Some (filter_years (set years) results))"

section \<open>update_holidays.py: merge_holidays\<close>

text \<open>\<^verbatim>\<open>existing_keys = {(h["date"], h["name"]) for h in existing}\<close>\<close>

definition holiday_key :: "entry \<Rightarrow> string \<times> string" where
  "holiday_key h = (date h, name h)"

text \<open>
  The loop over \<^verbatim>\<open>new_holidays\<close>; its state is the key set and the list \<^verbatim>\<open>merged\<close>.
  \<^verbatim>\<open>
    for holiday in new_holidays:
        key = (holiday["date"], holiday["name"])
        if key not in existing_keys:
            merged.append(holiday)
            existing_keys.add(key)
  \<close>
\<close>

fun merge_loop :: "(string \<times> string) set \<Rightarrow> entry list \<Rightarrow> entry list \<Rightarrow> entry list" where
  "merge_loop existing_keys merged [] = merged"
| "merge_loop existing_keys merged (holiday # new_holidays) =
     (let key = holiday_key holiday in
      if key \<notin> existing_keys
      then merge_loop (insert key existing_keys) (merged @ [holiday]) new_holidays
      else merge_loop existing_keys merged new_holidays)"

text \<open>
  \<^verbatim>\<open>merged.sort(key=lambda h: h["date"])\<close> is a stable sort on the date alone, as
  \<^const>\<open>sort_key\<close> is.
\<close>

definition merge_holidays :: "entry list \<Rightarrow> entry list \<Rightarrow> entry list" where
  "merge_holidays existing new_holidays =
     sort_key date (merge_loop (set (map holiday_key existing)) existing new_holidays)"

section \<open>update_holidays.py: the dataset files\<close>

text \<open>
  A JSON value, as \<^verbatim>\<open>json.load\<close> returns it and \<^verbatim>\<open>json.dump\<close> takes it; an object lists the
  items of the Python dictionary in their order, and a number is an integer. The file
  system maps a path to the
  content of the file there; the type \<open>'c\<close> of contents is left open, and \<^verbatim>\<open>json.load\<close> and
  \<^verbatim>\<open>json.dump\<close> are parameters: \<open>json_load c\<close> is the value read from a file of content \<open>c\<close>
  or the exception raised on it, \<open>json_dump v\<close> is the content written for the value \<open>v\<close>.
\<close>

datatype json =
    JNull
  | JBool bool
  | JNum int
  | JStr string
  | JArr "json list"
  | JObj "(string \<times> json) list"

type_synonym 'c fs = "string \<Rightarrow> 'c option"

datatype warning = NotAList string | ParseFailed string

text \<open>\<^verbatim>\<open>os.path.join(json_dir, f"{country_code}.json")\<close> on a POSIX system.\<close>

definition path_join :: "string \<Rightarrow> string \<Rightarrow> string" where
  "path_join a b =
     (if b \<noteq> [] \<and> hd b = CHR ''/'' then b
      else if a = [] \<or> last a = CHR ''/'' then a @ b
      else a @ ''/'' @ b)"

definition country_file :: "string \<Rightarrow> string \<Rightarrow> string" where
  "country_file json_dir country_code = path_join json_dir (country_code @ ''.json'')"

text \<open>
  \<^verbatim>\<open>load_existing_holidays\<close> returns the list it read and the warnings it printed. Only
  \<^verbatim>\<open>json.JSONDecodeError\<close> is handled; any other exception of \<^verbatim>\<open>json.load\<close> goes on to the
  caller.
\<close>

definition load_existing_holidays ::
  "('c \<Rightarrow> exn + json) \<Rightarrow> 'c fs \<Rightarrow> string \<Rightarrow> exn + json list \<times> warning list" where
  "load_existing_holidays json_load files file_path =
     (case files file_path of
        None \<Rightarrow> Inr ([], [])
      | Some content \<Rightarrow>
          (case json_load content of
             Inr (JArr data) \<Rightarrow> Inr (data, [])
           | Inr _ \<Rightarrow> Inr ([], [NotAList file_path])
           | Inl JSONDecodeError \<Rightarrow> Inr ([], [ParseFailed file_path])
           | Inl e \<Rightarrow> Inl e))"

definition save_holidays_to_json ::
  "(json \<Rightarrow> 'c) \<Rightarrow> 'c fs \<Rightarrow> string \<Rightarrow> json list \<Rightarrow> 'c fs" where
  "save_holidays_to_json json_dump files file_path holidays =
     files(file_path \<mapsto> json_dump (JArr holidays))"

text \<open>The dictionary \<^verbatim>\<open>{"date": iso_date, "name": name}\<close> of a fetched entry.\<close>

definition entry_json :: "entry \<Rightarrow> json" where
  "entry_json h = JObj [(''date'', JStr (date h)), (''name'', JStr (name h))]"

section \<open>update_holidays.py: merge_holidays on stored values\<close>

text \<open>
  In \<^verbatim>\<open>update_country_holidays\<close> the existing list is what \<^verbatim>\<open>json.load\<close> returned, any list
  of JSON values. \<^verbatim>\<open>merge_holidays\<close> on it is modelled value by value.

  \<^verbatim>\<open>h["date"]\<close>: a dictionary gives the member or raises \<^verbatim>\<open>KeyError\<close>; a list, a string, a
  number, a boolean and \<^verbatim>\<open>None\<close> raise \<^verbatim>\<open>TypeError\<close> on a string subscript.
\<close>

definition py_subscript :: "json \<Rightarrow> string \<Rightarrow> exn + json" where
  "py_subscript h k =
     (case h of
        JObj members \<Rightarrow> (case map_of members k of Some v \<Rightarrow> Inr v | None \<Rightarrow> Inl KeyError)
      | _ \<Rightarrow> Inl TypeError)"

text \<open>
  The key \<^verbatim>\<open>(h["date"], h["name"])\<close> goes into a set, so both parts are hashed: a list or
  a dictionary raises \<^verbatim>\<open>TypeError\<close>. In a set \<^verbatim>\<open>True\<close> and \<^verbatim>\<open>1\<close> are the same member, as
  are \<^verbatim>\<open>False\<close> and \<^verbatim>\<open>0\<close>.
\<close>

definition hashable :: "json \<Rightarrow> bool" where
  "hashable v = (case v of JArr xs \<Rightarrow> False | JObj members \<Rightarrow> False | _ \<Rightarrow> True)"

definition as_member :: "json \<Rightarrow> json" where
  "as_member v = (case v of JBool b \<Rightarrow> JNum (if b then 1 else 0) | _ \<Rightarrow> v)"

definition stored_key :: "json \<Rightarrow> exn + json \<times> json" where
  "stored_key h =
     (case py_subscript h ''date'' of
        Inl e \<Rightarrow> Inl e
      | Inr d \<Rightarrow>
          (case py_subscript h ''name'' of
             Inl e \<Rightarrow> Inl e
           | Inr n \<Rightarrow> if hashable d \<and> hashable n then Inr (d, n) else Inl TypeError))"

text \<open>
  The set comprehension over \<^verbatim>\<open>existing\<close>; the result pairs every element with its date,
  the sort key of later.
\<close>

fun stored_keys :: "json list \<Rightarrow> exn + (json \<times> json) list" where
  "stored_keys [] = Inr []"
| "stored_keys (h # hs) =
     (case stored_key h of
        Inl e \<Rightarrow> Inl e
      | Inr key \<Rightarrow> (case stored_keys hs of Inl e \<Rightarrow> Inl e | Inr keys \<Rightarrow> Inr (key # keys)))"

text \<open>
  The loop over \<^verbatim>\<open>new_holidays\<close>, whose entries are the dictionaries of the fetch. The
  list \<^verbatim>\<open>merged\<close> holds each element with its date.
\<close>

fun merge_stored_loop ::
  "(json \<times> json) set \<Rightarrow> (json \<times> json) list \<Rightarrow> entry list \<Rightarrow> (json \<times> json) list" where
  "merge_stored_loop existing_keys merged [] = merged"
| "merge_stored_loop existing_keys merged (holiday # new_holidays) =
     (let key = (JStr (date holiday), JStr (name holiday)) in
      if key \<notin> existing_keys
      then merge_stored_loop (insert key existing_keys)
             (merged @ [(JStr (date holiday), entry_json holiday)]) new_holidays
      else merge_stored_loop existing_keys merged new_holidays)"

text \<open>
  \<^verbatim>\<open>merged.sort(key=lambda h: h["date"])\<close> compares the dates with \<^verbatim>\<open><\<close>. A list of fewer
  than two elements is compared nowhere. Strings compare with strings, and numbers and
  booleans with each other; every other pair (a \<^verbatim>\<open>None\<close> with anything, a string with a
  number) raises \<^verbatim>\<open>TypeError\<close>, and a list that holds such a pair meets one.
\<close>

definition is_text :: "json \<Rightarrow> bool" where
  "is_text v = (case v of JStr s \<Rightarrow> True | _ \<Rightarrow> False)"

definition text_of :: "json \<Rightarrow> string" where
  "text_of v = (case v of JStr s \<Rightarrow> s | _ \<Rightarrow> [])"

definition is_number :: "json \<Rightarrow> bool" where
  "is_number v = (case v of JNum n \<Rightarrow> True | JBool b \<Rightarrow> True | _ \<Rightarrow> False)"

definition number_of :: "json \<Rightarrow> int" where
  "number_of v = (case v of JNum n \<Rightarrow> n | JBool b \<Rightarrow> (if b then 1 else 0) | _ \<Rightarrow> 0)"

definition sort_by_date :: "(json \<times> json) list \<Rightarrow> exn + json list" where
  "sort_by_date merged =
     (if length merged < 2 then Inr (map snd merged)
      else if list_all (\<lambda>p. is_text (fst p)) merged
      then Inr (map snd (sort_key (\<lambda>p. text_of (fst p)) merged))
      else if list_all (\<lambda>p. is_number (fst p)) merged
      then Inr (map snd (sort_key (\<lambda>p. number_of (fst p)) merged))
      else Inl TypeError)"

definition merge_stored :: "json list \<Rightarrow> entry list \<Rightarrow> exn + json list" where
  "merge_stored existing new_holidays =
     (case stored_keys existing of
        Inl e \<Rightarrow> Inl e
      | Inr keys \<Rightarrow>
          sort_by_date
            (merge_stored_loop (set (map (\<lambda>(d, n). (as_member d, as_member n)) keys))
               (zip (map fst keys) existing) new_holidays))"

section \<open>update_holidays.py: update_country_holidays and the loop of main\<close>

record calendar_info =
  calendar_id :: string
  lang :: string

definition CALENDAR_MAPPING :: "(string \<times> calendar_info) list" where
  "CALENDAR_MAPPING = [
     (''JP'', \<lparr>calendar_id = ''ja.japanese.official#holiday@group.v.calendar.google.com'', lang = ''ja''\<rparr>),
     (''US'', \<lparr>calendar_id = ''en.usa.official#holiday@group.v.calendar.google.com'', lang = ''en''\<rparr>),
     (''GB'', \<lparr>calendar_id = ''en.uk.official#holiday@group.v.calendar.google.com'', lang = ''en''\<rparr>),
     (''UK'', \<lparr>calendar_id = ''en.uk.official#holiday@group.v.calendar.google.com'', lang = ''en''\<rparr>),
     (''KR'', \<lparr>calendar_id = ''en.south_korea.official#holiday@group.v.calendar.google.com'', lang = ''en''\<rparr>),
     (''CA'', \<lparr>calendar_id = ''en.canadian.official#holiday@group.v.calendar.google.com'', lang = ''en''\<rparr>),
     (''AU'', \<lparr>calendar_id = ''en.australian.official#holiday@group.v.calendar.google.com'', lang = ''en''\<rparr>),
     (''NZ'', \<lparr>calendar_id = ''en.new_zealand.official#holiday@group.v.calendar.google.com'', lang = ''en''\<rparr>),
     (''DE'', \<lparr>calendar_id = ''en.german.official#holiday@group.v.calendar.google.com'', lang = ''en''\<rparr>),
     (''FR'', \<lparr>calendar_id = ''en.french.official#holiday@group.v.calendar.google.com'', lang = ''en''\<rparr>),
     (''IT'', \<lparr>calendar_id = ''en.italian.official#holiday@group.v.calendar.google.com'', lang = ''en''\<rparr>),
     (''ES'', \<lparr>calendar_id = ''en.spain.official#holiday@group.v.calendar.google.com'', lang = ''en''\<rparr>),
     (''BR'', \<lparr>calendar_id = ''en.brazilian.official#holiday@group.v.calendar.google.com'', lang = ''en''\<rparr>),
     (''MX'', \<lparr>calendar_id = ''en.mexican.official#holiday@group.v.calendar.google.com'', lang = ''en''\<rparr>),
     (''IN'', \<lparr>calendar_id = ''en.indian.official#holiday@group.v.calendar.google.com'', lang = ''en''\<rparr>),
     (''CN'', \<lparr>calendar_id = ''en.china.official#holiday@group.v.calendar.google.com'', lang = ''en''\<rparr>),
     (''HK'', \<lparr>calendar_id = ''en.hong_kong.official#holiday@group.v.calendar.google.com'', lang = ''en''\<rparr>),
     (''SG'', \<lparr>calendar_id = ''en.singapore.official#holiday@group.v.calendar.google.com'', lang = ''en''\<rparr>),
     (''MY'', \<lparr>calendar_id = ''en.malaysia.official#holiday@group.v.calendar.google.com'', lang = ''en''\<rparr>),
     (''TH'', \<lparr>calendar_id = ''en.thai.official#holiday@group.v.calendar.google.com'', lang = ''en''\<rparr>),
     (''VN'', \<lparr>calendar_id = ''en.vietnamese.official#holiday@group.v.calendar.google.com'', lang = ''en''\<rparr>),
     (''PH'', \<lparr>calendar_id = ''en.philippines.official#holiday@group.v.calendar.google.com'', lang = ''en''\<rparr>),
     (''ID'', \<lparr>calendar_id = ''en.indonesian.official#holiday@group.v.calendar.google.com'', lang = ''en''\<rparr>),
     (''TR'', \<lparr>calendar_id = ''en.turkish.official#holiday@group.v.calendar.google.com'', lang = ''en''\<rparr>),
     (''SA'', \<lparr>calendar_id = ''en.sa.official#holiday@group.v.calendar.google.com'', lang = ''en''\<rparr>),
     (''AE'', \<lparr>calendar_id = ''en.ae.official#holiday@group.v.calendar.google.com'', lang = ''en''\<rparr>),
     (''IL'', \<lparr>calendar_id = ''en.jewish.official#holiday@group.v.calendar.google.com'', lang = ''en''\<rparr>),
     (''ZA'', \<lparr>calendar_id = ''en.sa.official#holiday@group.v.calendar.google.com'', lang = ''en''\<rparr>),
     (''RU'', \<lparr>calendar_id = ''en.russian.official#holiday@group.v.calendar.google.com'', lang = ''en''\<rparr>),
     (''PL'', \<lparr>calendar_id = ''en.polish.official#holiday@group.v.calendar.google.com'', lang = ''en''\<rparr>),
     (''NL'', \<lparr>calendar_id = ''en.dutch.official#holiday@group.v.calendar.google.com'', lang = ''en''\<rparr>),
     (''BE'', \<lparr>calendar_id = ''en.be.official#holiday@group.v.calendar.google.com'', lang = ''en''\<rparr>),
     (''AT'', \<lparr>calendar_id = ''en.austrian.official#holiday@group.v.calendar.google.com'', lang = ''en''\<rparr>),
     (''CH'', \<lparr>calendar_id = ''en.ch.official#holiday@group.v.calendar.google.com'', lang = ''en''\<rparr>),
     (''SE'', \<lparr>calendar_id = ''en.swedish.official#holiday@group.v.calendar.google.com'', lang = ''en''\<rparr>),
     (''NO'', \<lparr>calendar_id = ''en.norwegian.official#holiday@group.v.calendar.google.com'', lang = ''en''\<rparr>),
     (''DK'', \<lparr>calendar_id = ''en.danish.official#holiday@group.v.calendar.google.com'', lang = ''en''\<rparr>),
     (''FI'', \<lparr>calendar_id = ''en.finnish.official#holiday@group.v.calendar.google.com'', lang = ''en''\<rparr>),
     (''PT'', \<lparr>calendar_id = ''en.portuguese.official#holiday@group.v.calendar.google.com'', lang = ''en''\<rparr>),
     (''GR'', \<lparr>calendar_id = ''en.greek.official#holiday@group.v.calendar.google.com'', lang = ''en''\<rparr>),
     (''IE'', \<lparr>calendar_id = ''en.irish.official#holiday@group.v.calendar.google.com'', lang = ''en''\<rparr>),
     (''CZ'', \<lparr>calendar_id = ''en.czech.official#holiday@group.v.calendar.google.com'', lang = ''en''\<rparr>),
     (''HU'', \<lparr>calendar_id = ''en.hungarian.official#holiday@group.v.calendar.google.com'', lang = ''en''\<rparr>),
     (''RO'', \<lparr>calendar_id = ''en.romanian.official#holiday@group.v.calendar.google.com'', lang = ''en''\<rparr>),
     (''BG'', \<lparr>calendar_id = ''en.bulgarian.official#holiday@group.v.calendar.google.com'', lang = ''en''\<rparr>),
     (''HR'', \<lparr>calendar_id = ''en.croatian.official#holiday@group.v.calendar.google.com'', lang = ''en''\<rparr>),
     (''RS'', \<lparr>calendar_id = ''en.rs.official#holiday@group.v.calendar.google.com'', lang = ''en''\<rparr>),
     (''SI'', \<lparr>calendar_id = ''en.slovenian.official#holiday@group.v.calendar.google.com'', lang = ''en''\<rparr>),
     (''SK'', \<lparr>calendar_id = ''en.slovak.official#holiday@group.v.calendar.google.com'', lang = ''en''\<rparr>),
     (''LT'', \<lparr>calendar_id = ''en.lithuanian.official#holiday@group.v.calendar.google.com'', lang = ''en''\<rparr>),
     (''LV'', \<lparr>calendar_id = ''en.latvian.official#holiday@group.v.calendar.google.com'', lang = ''en''\<rparr>),
     (''EE'', \<lparr>calendar_id = ''en.ee.official#holiday@group.v.calendar.google.com'', lang = ''en''\<rparr>),
     (''UA'', \<lparr>calendar_id = ''en.ukrainian.official#holiday@group.v.calendar.google.com'', lang = ''en''\<rparr>),
     (''BY'', \<lparr>calendar_id = ''en.by.official#holiday@group.v.calendar.google.com'', lang = ''en''\<rparr>),
     (''AR'', \<lparr>calendar_id = ''en.ar.official#holiday@group.v.calendar.google.com'', lang = ''en''\<rparr>),
     (''CL'', \<lparr>calendar_id = ''en.cl.official#holiday@group.v.calendar.google.com'', lang = ''en''\<rparr>),
     (''CO'', \<lparr>calendar_id = ''en.co.official#holiday@group.v.calendar.google.com'', lang = ''en''\<rparr>),
     (''PE'', \<lparr>calendar_id = ''en.pe.official#holiday@group.v.calendar.google.com'', lang = ''en''\<rparr>),
     (''VE'', \<lparr>calendar_id = ''en.ve.official#holiday@group.v.calendar.google.com'', lang = ''en''\<rparr>),
     (''CR'', \<lparr>calendar_id = ''en.cr.official#holiday@group.v.calendar.google.com'', lang = ''en''\<rparr>),
     (''AO'', \<lparr>calendar_id = ''en.ao.official#holiday@group.v.calendar.google.com'', lang = ''en''\<rparr>),
     (''AW'', \<lparr>calendar_id = ''en.aw.official#holiday@group.v.calendar.google.com'', lang = ''en''\<rparr>),
     (''BD'', \<lparr>calendar_id = ''en.bd.official#holiday@group.v.calendar.google.com'', lang = ''en''\<rparr>),
     (''BI'', \<lparr>calendar_id = ''en.bi.official#holiday@group.v.calendar.google.com'', lang = ''en''\<rparr>),
     (''BW'', \<lparr>calendar_id = ''en.bw.official#holiday@group.v.calendar.google.com'', lang = ''en''\<rparr>),
     (''CW'', \<lparr>calendar_id = ''en.cw.official#holiday@group.v.calendar.google.com'', lang = ''en''\<rparr>),
     (''DJ'', \<lparr>calendar_id = ''en.dj.official#holiday@group.v.calendar.google.com'', lang = ''en''\<rparr>),
     (''DO'', \<lparr>calendar_id = ''en.do.official#holiday@group.v.calendar.google.com'', lang = ''en''\<rparr>),
     (''EG'', \<lparr>calendar_id = ''en.eg.official#holiday@group.v.calendar.google.com'', lang = ''en''\<rparr>),
     (''GE'', \<lparr>calendar_id = ''en.ge.official#holiday@group.v.calendar.google.com'', lang = ''en''\<rparr>),
     (''HN'', \<lparr>calendar_id = ''en.hn.official#holiday@group.v.calendar.google.com'', lang = ''en''\<rparr>),
     (''IS'', \<lparr>calendar_id = ''en.is.official#holiday@group.v.calendar.google.com'', lang = ''en''\<rparr>),
     (''JM'', \<lparr>calendar_id = ''en.jm.official#holiday@group.v.calendar.google.com'', lang = ''en''\<rparr>),
     (''KE'', \<lparr>calendar_id = ''en.ke.official#holiday@group.v.calendar.google.com'', lang = ''en''\<rparr>),
     (''LU'', \<lparr>calendar_id = ''en.lu.official#holiday@group.v.calendar.google.com'', lang = ''en''\<rparr>),
     (''MA'', \<lparr>calendar_id = ''en.ma.official#holiday@group.v.calendar.google.com'', lang = ''en''\<rparr>),
     (''MW'', \<lparr>calendar_id = ''en.mw.official#holiday@group.v.calendar.google.com'', lang = ''en''\<rparr>),
     (''MZ'', \<lparr>calendar_id = ''en.mz.official#holiday@group.v.calendar.google.com'', lang = ''en''\<rparr>),
     (''NG'', \<lparr>calendar_id = ''en.ng.official#holiday@group.v.calendar.google.com'', lang = ''en''\<rparr>),
     (''NI'', \<lparr>calendar_id = ''en.ni.official#holiday@group.v.calendar.google.com'', lang = ''en''\<rparr>),
     (''PY'', \<lparr>calendar_id = ''en.py.official#holiday@group.v.calendar.google.com'', lang = ''en''\<rparr>),
     (''YV'', \<lparr>calendar_id = ''en.ve.official#holiday@group.v.calendar.google.com'', lang = ''en''\<rparr>)]"

text \<open>
  A call either returns its boolean or raises; both leave a file system behind. The
  \<^verbatim>\<open>try\<close> block turns every exception raised inside it into \<^verbatim>\<open>return False\<close>; the check
  of recreate mode stands before the block, so \<^verbatim>\<open>FileExistsError\<close> leaves the function.
  \<open>None\<close> is a fetch that has not returned. A write is taken to succeed.
\<close>

datatype 'c result = Returns bool "'c fs" | Raises exn "'c fs"

definition update_country_holidays ::
  "nat \<Rightarrow> http \<Rightarrow> ('c \<Rightarrow> exn + json) \<Rightarrow> (json \<Rightarrow> 'c) \<Rightarrow> 'c fs
     \<Rightarrow> string \<Rightarrow> string \<Rightarrow> string \<Rightarrow> int \<Rightarrow> int \<Rightarrow> bool \<Rightarrow> 'c result option" where
  "update_country_holidays fuel http_get json_load json_dump files
       country_code json_dir api_key start_year end_year recreate =
     (let file_path = country_file json_dir country_code in
      case map_of CALENDAR_MAPPING country_code of
        None \<Rightarrow> Some (Returns False files)
      | Some info \<Rightarrow>
          if recreate \<and> files file_path \<noteq> None then Some (Raises FileExistsError files)
          else
            (case fetch_holidays_from_gcal fuel http_get (calendar_id info) api_key
                    start_year end_year of
               None \<Rightarrow> None
             | Some (Inl e) \<Rightarrow> Some (Returns False files)
             | Some (Inr new_holidays) \<Rightarrow>
                 if new_holidays = [] then Some (Returns True files)
                 else if recreate
                 then Some (Returns True
                        (save_holidays_to_json json_dump files file_path
                           (map entry_json new_holidays)))
                 else
                   (case load_existing_holidays json_load files file_path of
                      Inl e \<Rightarrow> Some (Returns False files)
                    | Inr (existing_holidays, warnings) \<Rightarrow>
                        (case merge_stored existing_holidays new_holidays of
                           Inl e \<Rightarrow> Some (Returns False files)
                         | Inr final_holidays \<Rightarrow>
                             Some (Returns True
                               (save_holidays_to_json json_dump files file_path
                                  final_holidays))))))"

text \<open>
  The state of the loop \<^verbatim>\<open>for country_code in country_codes\<close> of \<^verbatim>\<open>main\<close>: the two
  counters and the file system. The loop body removes the file of the key first when
  \<^verbatim>\<open>--recreate\<close> and \<^verbatim>\<open>--force\<close> are both given, and counts a raised exception as an error.
\<close>

record 'c run =
  success_count :: nat
  error_count :: nat
  files_of :: "'c fs"

definition main_loop_body ::
  "nat \<Rightarrow> http \<Rightarrow> ('c \<Rightarrow> exn + json) \<Rightarrow> (json \<Rightarrow> 'c)
     \<Rightarrow> string \<Rightarrow> string \<Rightarrow> int \<Rightarrow> int \<Rightarrow> bool \<Rightarrow> bool \<Rightarrow> 'c run \<Rightarrow> string \<Rightarrow> 'c run option" where
  "main_loop_body fuel http_get json_load json_dump json_dir api_key start_year end_year
       recreate force st country_code =
     (let file_path = country_file json_dir country_code;
          files1 = (if recreate \<and> force \<and> files_of st file_path \<noteq> None
                    then (files_of st)(file_path := None) else files_of st)
      in case update_country_holidays fuel http_get json_load json_dump files1
                country_code json_dir api_key start_year end_year recreate of
           None \<Rightarrow> None
         | Some (Returns True files2) \<Rightarrow>
             Some (st\<lparr>success_count := success_count st + 1, files_of := files2\<rparr>)
         | Some (Returns False files2) \<Rightarrow>
             Some (st\<lparr>error_count := error_count st + 1, files_of := files2\<rparr>)
         | Some (Raises e files2) \<Rightarrow>
             Some (st\<lparr>error_count := error_count st + 1, files_of := files2\<rparr>))"

fun main_loop ::
  "nat \<Rightarrow> http \<Rightarrow> ('c \<Rightarrow> exn + json) \<Rightarrow> (json \<Rightarrow> 'c)
     \<Rightarrow> string \<Rightarrow> string \<Rightarrow> int \<Rightarrow> int \<Rightarrow> bool \<Rightarrow> bool \<Rightarrow> 'c run \<Rightarrow> string list \<Rightarrow> 'c run option" where
  "main_loop fuel http_get json_load json_dump json_dir api_key start_year end_year
       recreate force st [] = Some st"
| "main_loop fuel http_get json_load json_dump json_dir api_key start_year end_year
       recreate force st (country_code # rest) =
     (case main_loop_body fuel http_get json_load json_dump json_dir api_key start_year
             end_year recreate force st country_code of
        None \<Rightarrow> None
      | Some st' \<Rightarrow>
          main_loop fuel http_get json_load json_dump json_dir api_key start_year end_year
            recreate force st' rest)"

section \<open>test_update_holidays.py: compare_snapshots\<close>

text \<open>\<^verbatim>\<open>f"{holiday['date']}:{holiday['name']}"\<close>\<close>

definition create_holiday_key :: "entry \<Rightarrow> string" where
  "create_holiday_key holiday = date holiday @ '':'' @ name holiday"

text \<open>
  The error messages: \<^verbatim>\<open>"Country ... missing after update"\<close>,
  \<^verbatim>\<open>"... - Entry deleted: key"\<close> and \<^verbatim>\<open>"... - Entry modified: Before ... After ..."\<close>.
\<close>

datatype cmp_error =
    is_missing: CountryMissing string
  | is_deleted: EntryDeleted string string
  | is_modified: EntryModified string entry entry

record stats =
  countries_checked :: nat
  total_entries_before :: nat
  total_entries_after :: nat
  unchanged_entries :: nat
  new_entries :: nat
  modified_entries :: nat
  deleted_entries :: nat

record comparison =
  passed :: bool
  errors :: "cmp_error list"
  stats :: stats

text \<open>
  \<^verbatim>\<open>before_keys - after_keys\<close> is a Python set; the model lists its members once each, in
  the order of the list they come from (Python fixes no order for them).
\<close>

definition keys_minus :: "entry list \<Rightarrow> entry list \<Rightarrow> string list" where
  "keys_minus xs ys =
     remdups (filter (\<lambda>k. k \<notin> set (map create_holiday_key ys)) (map create_holiday_key xs))"

text \<open>The loop \<^verbatim>\<open>for before_holiday in before_holidays\<close>.\<close>

fun check_entries ::
  "string \<Rightarrow> entry list \<Rightarrow> entry list \<Rightarrow> cmp_error list \<times> stats \<Rightarrow> cmp_error list \<times> stats" where
  "check_entries country_code after_holidays [] acc = acc"
| "check_entries country_code after_holidays (before_holiday # rest) (errs, st) =
     (case find (\<lambda>after_holiday.
                   create_holiday_key after_holiday = create_holiday_key before_holiday)
             after_holidays of
        None \<Rightarrow> check_entries country_code after_holidays rest (errs, st)
      | Some after_match \<Rightarrow>
          if before_holiday = after_match
          then check_entries country_code after_holidays rest
                 (errs, st\<lparr>unchanged_entries := unchanged_entries st + 1\<rparr>)
          else check_entries country_code after_holidays rest
                 (errs @ [EntryModified country_code before_holiday after_match],
                  st\<lparr>modified_entries := modified_entries st + 1\<rparr>))"

text \<open>The body of \<^verbatim>\<open>for country_code, before_holidays in before.items()\<close>.\<close>

definition compare_country ::
  "(string \<times> entry list) list \<Rightarrow> cmp_error list \<times> stats \<Rightarrow> string \<times> entry list
     \<Rightarrow> cmp_error list \<times> stats" where
  "compare_country after_snapshot acc item =
     (case acc of (errs, st) \<Rightarrow>
      case item of (country_code, before_holidays) \<Rightarrow>
        (let st1 = st\<lparr>countries_checked := countries_checked st + 1,
                      total_entries_before := total_entries_before st + length before_holidays\<rparr>
         in case map_of after_snapshot country_code of
              None \<Rightarrow> (errs @ [CountryMissing country_code], st1)
            | Some after_holidays \<Rightarrow>
                (let st2 = st1\<lparr>total_entries_after :=
                                  total_entries_after st1 + length after_holidays\<rparr>;
                     deleted = keys_minus before_holidays after_holidays;
                     st3 = st2\<lparr>deleted_entries := deleted_entries st2 + length deleted\<rparr>;
                     errs1 = errs @ map (EntryDeleted country_code) deleted
                 in case check_entries country_code after_holidays before_holidays (errs1, st3) of
                      (errs2, st4) \<Rightarrow>
                        (errs2, st4\<lparr>new_entries := new_entries st4 +
                                   length (keys_minus after_holidays before_holidays)\<rparr>))))"

definition compare_snapshots ::
  "(string \<times> entry list) list \<Rightarrow> (string \<times> entry list) list \<Rightarrow> comparison" where
  "compare_snapshots before_snapshot after_snapshot =
     (case foldl (compare_country after_snapshot)
             ([], \<lparr>countries_checked = 0, total_entries_before = 0, total_entries_after = 0,
                   unchanged_entries = 0, new_entries = 0, modified_entries = 0,
                   deleted_entries = 0\<rparr>) before_snapshot of
        (errs, st) \<Rightarrow> \<lparr>passed = (length errs = 0), errors = errs, stats = st\<rparr>)"

section \<open>Notions of the claims\<close>

text \<open>
  A date string is dated in the year \<open>y\<close> when it begins with the four decimal digits of
  \<open>y\<close>, as \<^verbatim>\<open>YYYY-MM-DD\<close> does.
\<close>

definition dated_in_year :: "string \<Rightarrow> int \<Rightarrow> bool" where
  "dated_in_year s y =
     (case s of
        a # b # c # d # rest \<Rightarrow>
          is_digit a \<and> is_digit b \<and> is_digit c \<and> is_digit d \<and>
          y = int (1000 * digit_val a + 100 * digit_val b + 10 * digit_val c + digit_val d)
      | _ \<Rightarrow> False)"

text \<open>
  An item carries no start value when it has no \<^verbatim>\<open>start\<close>, or its \<^verbatim>\<open>date\<close> and its
  \<^verbatim>\<open>dateTime\<close> are each absent, \<^verbatim>\<open>null\<close> or empty.
\<close>

definition no_value :: "member \<Rightarrow> bool" where
  "no_value m = (m = Absent \<or> m = Null \<or> m = Text [])"

definition no_start_value :: "raw_event \<Rightarrow> bool" where
  "no_start_value item =
     (case start item of
        NoStart \<Rightarrow> True
      | NullStart \<Rightarrow> True
      | Start d t \<Rightarrow> no_value d \<and> no_value t)"

section \<open>Example data\<close>

definition new_year :: entry where
  "new_year = \<lparr>date = ''2025-01-01T00:00:00.000Z'', name = ''New Year''\<rparr>"

definition foundation_day :: entry where
  "foundation_day = \<lparr>date = ''2025-02-11T00:00:00.000Z'', name = ''Foundation Day''\<rparr>"

definition new_year_observed :: entry where
  "new_year_observed = \<lparr>date = ''2025-01-01T00:00:00.000Z'', name = ''New Year (observed)''\<rparr>"

definition labour_day_item :: raw_event where
  "labour_day_item = \<lparr>start = Start (Text ''2027-05-01'') Absent,
     summary = Some ''Labour Day'', event_id = Some ''e1''\<rparr>"

definition untimed_item :: raw_event where
  "untimed_item = \<lparr>start = Start Null (Text []),
     summary = Some ''No date'', event_id = Some ''e2''\<rparr>"

definition new_year_item :: raw_event where
  "new_year_item = \<lparr>start = Start Absent (Text ''2026-01-01T09:00:00+09:00''),
     summary = None, event_id = Some ''e3''\<rparr>"

text \<open>The item \<^verbatim>\<open>{"start": {"dateTime": null}, "summary": "Null time", "id": "e4"}\<close>.\<close>

definition null_time_item :: raw_event where
  "null_time_item = \<lparr>start = Start Absent Null,
     summary = Some ''Null time'', event_id = Some ''e4''\<rparr>"

text \<open>The item \<^verbatim>\<open>{"start": null, "summary": "Null start", "id": "e5"}\<close>.\<close>

definition null_start_item :: raw_event where
  "null_start_item = \<lparr>start = NullStart,
     summary = Some ''Null start'', event_id = Some ''e5''\<rparr>"

definition null_time_http :: http where
  "null_time_http req = Inr \<lparr>items = [labour_day_item, null_time_item], nextPageToken = None\<rparr>"

text \<open>A source of two pages.\<close>

definition example_http :: http where
  "example_http req =
     (if pageToken req = None
      then Inr \<lparr>items = [labour_day_item, untimed_item], nextPageToken = Some ''p2''\<rparr>
      else Inr \<lparr>items = [new_year_item], nextPageToken = None\<rparr>)"

text \<open>
  Example files. A content is bytes that are no UTF-8 text, text that is no JSON
  document, or a JSON document, given by the value it encodes; reading and writing are
  \<^verbatim>\<open>json.load\<close> and \<^verbatim>\<open>json.dump\<close> on these contents.
\<close>

datatype content = NotUtf8 | Malformed string | Document json

definition read_content :: "content \<Rightarrow> exn + json" where
  "read_content c =
     (case c of
        NotUtf8 \<Rightarrow> Inl UnicodeDecodeError
      | Malformed text \<Rightarrow> Inl JSONDecodeError
      | Document v \<Rightarrow> Inr v)"

definition write_content :: "json \<Rightarrow> content" where
  "write_content v = Document v"

definition example_files :: "content fs" where
  "example_files =
     [''json/JP.json'' \<mapsto> Document (JArr [entry_json new_year]),
      ''json/US.json'' \<mapsto> Document (JArr [JNum 1]),
      ''json/GB.json'' \<mapsto> Document (JObj [(''holidays'', JArr [])]),
      ''json/FR.json'' \<mapsto> Malformed ''[{'',
      ''json/IT.json'' \<mapsto> NotUtf8]"

definition failing_http :: http where
  "failing_http req = Inl (RuntimeError ''Network error'')"

definition example_run :: "content run" where
  "example_run = \<lparr>success_count = 0, error_count = 0, files_of = example_files\<rparr>"


section \<open>Properties of merge_holidays\<close>

lemma merge_loop_append:
  "\<exists>added. merge_loop ks merged new = merged @ added \<and> set added \<subseteq> set new"
proof (induction new arbitrary: ks merged)
  case Nil
  show ?case by simp
next
  case (Cons h new)
  show ?case
  proof (cases "holiday_key h \<in> ks")
    case True
    from Cons.IH [of ks merged] obtain added
      where "merge_loop ks merged new = merged @ added" "set added \<subseteq> set new" by blast
    with True show ?thesis by auto
  next
    case False
    from Cons.IH [of "insert (holiday_key h) ks" "merged @ [h]"] obtain added
      where a: "merge_loop (insert (holiday_key h) ks) (merged @ [h]) new = (merged @ [h]) @ added"
        and b: "set added \<subseteq> set new" by blast
    from False a have "merge_loop ks merged (h # new) = merged @ (h # added)" by simp
    moreover from b have "set (h # added) \<subseteq> set (h # new)" by auto
    ultimately show ?thesis by blast
  qed
qed

lemma merge_loop_keys:
  "ks = set (map holiday_key merged) \<Longrightarrow>
   set (map holiday_key (merge_loop ks merged new)) =
     set (map holiday_key merged) \<union> set (map holiday_key new)"
proof (induction new arbitrary: ks merged)
  case Nil
  show ?case by simp
next
  case (Cons h new)
  show ?case
  proof (cases "holiday_key h \<in> ks")
    case True
    with Cons.IH [OF Cons.prems] Cons.prems show ?thesis by auto
  next
    case False
    have "insert (holiday_key h) ks = set (map holiday_key (merged @ [h]))"
      using Cons.prems by simp
    from Cons.IH [OF this] False show ?thesis by auto
  qed
qed

lemma merge_loop_distinct:
  "ks = set (map holiday_key merged) \<Longrightarrow> distinct (map holiday_key merged) \<Longrightarrow>
   distinct (map holiday_key (merge_loop ks merged new))"
proof (induction new arbitrary: ks merged)
  case Nil
  then show ?case by simp
next
  case (Cons h new)
  show ?case
  proof (cases "holiday_key h \<in> ks")
    case True
    with Cons.IH [OF Cons.prems] show ?thesis by simp
  next
    case False
    have k: "insert (holiday_key h) ks = set (map holiday_key (merged @ [h]))"
      using Cons.prems by simp
    have d: "distinct (map holiday_key (merged @ [h]))"
      using Cons.prems False by simp
    from Cons.IH [OF k d] False show ?thesis by simp
  qed
qed

lemma merge_loop_noop:
  "set (map holiday_key new) \<subseteq> ks \<Longrightarrow> merge_loop ks merged new = merged"
  by (induction new arbitrary: ks merged) auto

lemma sorted_merge_holidays: "sorted (map date (merge_holidays existing new))"
  by (simp add: merge_holidays_def)

lemma set_merge_holidays_keys:
  "set (map holiday_key (merge_holidays existing new)) =
     set (map holiday_key existing) \<union> set (map holiday_key new)"
  using merge_loop_keys [of "set (map holiday_key existing)" existing new]
  by (simp add: merge_holidays_def)

lemma mset_merge_holidays:
  "\<exists>added. mset (merge_holidays existing new) = mset existing + mset added
     \<and> set added \<subseteq> set new"
proof -
  obtain added
    where "merge_loop (set (map holiday_key existing)) existing new = existing @ added"
      and "set added \<subseteq> set new"
    using merge_loop_append by blast
  then have "mset (merge_holidays existing new) = mset existing + mset added"
    by (simp add: merge_holidays_def)
  with \<open>set added \<subseteq> set new\<close> show ?thesis by blast
qed

text \<open>
  C1. Merging is non-destructive: every element of the existing list is in the output of
  \<open>merge_holidays existing incoming\<close>, as the same entry (same date, same name), and as
  often as it was in the existing list.
\<close>

theorem merge_holidays_non_destructive:
  "e \<in> set existing \<Longrightarrow>
     e \<in> set (merge_holidays existing incoming) \<and>
     count (mset existing) e \<le> count (mset (merge_holidays existing incoming)) e"
proof -
  assume e: "e \<in> set existing"
  obtain added where m: "mset (merge_holidays existing incoming) = mset existing + mset added"
    using mset_merge_holidays by blast
  then have c: "count (mset existing) e \<le> count (mset (merge_holidays existing incoming)) e"
    by simp
  from m have "set (merge_holidays existing incoming) = set existing \<union> set added"
    by (metis set_mset_mset set_mset_union)
  with e c show ?thesis by simp
qed

theorem merge_holidays_non_destructive_witness:
  "new_year \<in> set [foundation_day, new_year] \<and>
   new_year \<in> set (merge_holidays [foundation_day, new_year] [new_year]) \<and>
   count (mset [foundation_day, new_year]) new_year
     \<le> count (mset (merge_holidays [foundation_day, new_year] [new_year])) new_year"
  using merge_holidays_non_destructive [of new_year "[foundation_day, new_year]" "[new_year]"]
  by simp

text \<open>
  C3. Merging the same incoming list a second time changes nothing:
  \<open>merge(merge(existing, incoming), incoming) = merge(existing, incoming)\<close>.
\<close>

theorem merge_holidays_idempotent:
  "merge_holidays (merge_holidays existing incoming) incoming = merge_holidays existing incoming"
proof -
  let ?m = "merge_holidays existing incoming"
  have "set (map holiday_key incoming) \<subseteq> set (map holiday_key ?m)"
    using set_merge_holidays_keys [of existing incoming] by blast
  then have "merge_loop (set (map holiday_key ?m)) ?m incoming = ?m"
    by (rule merge_loop_noop)
  then have "merge_holidays ?m incoming = sort_key date ?m"
    by (simp add: merge_holidays_def)
  also have "\<dots> = ?m"
    using sorted_merge_holidays by (rule sort_key_id_if_sorted)
  finally show ?thesis .
qed

theorem merge_holidays_idempotent_witness:
  "merge_holidays (merge_holidays [new_year] [new_year, foundation_day])
       [new_year, foundation_day] = [new_year, foundation_day] \<and>
   merge_holidays [new_year] [new_year, foundation_day] = [new_year, foundation_day]"
proof -
  have "merge_holidays [new_year] [new_year, foundation_day] = [new_year, foundation_day]"
    by (simp add: merge_holidays_def holiday_key_def new_year_def foundation_day_def)
  with merge_holidays_idempotent [of "[new_year]" "[new_year, foundation_day]"]
  show ?thesis by simp
qed

text \<open>
  C9. Merging keeps the (date, name) pairs unique: when the pairs of the existing list
  are pairwise distinct, so are the pairs of \<open>merge_holidays existing incoming\<close>, for
  every incoming list.
\<close>

theorem merge_holidays_keeps_keys_distinct:
  "distinct (map holiday_key existing) \<Longrightarrow>
     distinct (map holiday_key (merge_holidays existing incoming))"
proof -
  assume d: "distinct (map holiday_key existing)"
  let ?l = "merge_loop (set (map holiday_key existing)) existing incoming"
  have "distinct (map holiday_key ?l)"
    using merge_loop_distinct [OF refl d] .
  moreover have "mset (map holiday_key (merge_holidays existing incoming)) =
      mset (map holiday_key ?l)"
    by (simp add: merge_holidays_def)
  ultimately show ?thesis
    by (metis distinct_count_atmost_1 set_mset_mset mset_eq_setD)
qed

theorem merge_holidays_keeps_keys_distinct_witness:
  "distinct (map holiday_key [foundation_day, new_year]) \<and>
   distinct (map holiday_key
     (merge_holidays [foundation_day, new_year] [new_year, new_year, foundation_day]))"
proof -
  have d: "distinct (map holiday_key [foundation_day, new_year])"
    by (simp add: holiday_key_def new_year_def foundation_day_def)
  from merge_holidays_keeps_keys_distinct [OF d] d show ?thesis by simp
qed

section \<open>Properties of the deduplication\<close>

lemma map_of_dict_set: "map_of (dict_set k v ps) = (map_of ps)(k \<mapsto> v)"
  by (induction ps) (auto simp: fun_eq_iff)

lemma keys_dict_set: "set (map fst (dict_set k v ps)) = insert k (set (map fst ps))"
  by (induction ps) auto

lemma distinct_dict_set: "distinct (map fst ps) \<Longrightarrow> distinct (map fst (dict_set k v ps))"
proof (induction ps)
  case Nil
  show ?case by simp
next
  case (Cons p ps)
  then have "fst p \<noteq> k \<Longrightarrow> fst p \<notin> set (map fst (dict_set k v ps))"
    unfolding keys_dict_set by simp
  with Cons show ?case by auto
qed

lemma keyed_dict_set:
  "\<forall>(k', v') \<in> set ps. k' = date v' \<Longrightarrow> \<forall>(k', v') \<in> set (dict_set (date v) v ps). k' = date v'"
  by (induction ps) auto

lemma dedupe_loop_distinct:
  "distinct (map fst acc) \<Longrightarrow> distinct (map fst (dedupe_loop acc hs))"
  by (induction hs arbitrary: acc) (auto simp: distinct_dict_set)

lemma dedupe_loop_keyed:
  "\<forall>(k, v) \<in> set acc. k = date v \<Longrightarrow> \<forall>(k, v) \<in> set (dedupe_loop acc hs). k = date v"
proof (induction hs arbitrary: acc)
  case Nil
  then show ?case by simp
next
  case (Cons h hs)
  from keyed_dict_set [OF Cons.prems, of h]
  have "\<forall>(k, v) \<in> set (dict_set (date h) h acc). k = date v" .
  from Cons.IH [OF this] show ?case by simp
qed

lemma find_snoc:
  "find P (xs @ [x]) = (case find P xs of Some y \<Rightarrow> Some y | None \<Rightarrow> if P x then Some x else None)"
  by (induction xs) auto

lemma map_of_dedupe_loop:
  "map_of (dedupe_loop acc hs) d =
     (case find (\<lambda>h. date h = d) (rev hs) of None \<Rightarrow> map_of acc d | Some h \<Rightarrow> Some h)"
proof (induction hs arbitrary: acc)
  case Nil
  show ?case by simp
next
  case (Cons h hs)
  show ?case
    by (simp add: Cons.IH map_of_dict_set find_snoc split: option.splits)
qed

lemma filter_values_by_key:
  "distinct (map fst al) \<Longrightarrow> \<forall>(k, v) \<in> set al. k = date v \<Longrightarrow>
   filter (\<lambda>h. date h = d) (map snd al) = (case map_of al d of None \<Rightarrow> [] | Some h \<Rightarrow> [h])"
proof (induction al)
  case Nil
  show ?case by simp
next
  case (Cons p al)
  obtain k v where p: "p = (k, v)" by (cases p)
  from Cons.prems p have kv: "k = date v" and nk: "k \<notin> fst ` set al"
    and d: "distinct (map fst al)" and ky: "\<forall>(k, v) \<in> set al. k = date v" by auto
  note IH = Cons.IH [OF d ky]
  show ?case
  proof (cases "d = k")
    case True
    with nk have "map_of al d = None" by (simp add: map_of_eq_None_iff)
    with IH True p kv show ?thesis by simp
  next
    case False
    with IH p kv show ?thesis by auto
  qed
qed

text \<open>
  C5. The deduplication of a fetch is keyed by the date alone and the last occurrence
  wins: the output has at most one entry for a date; for every date \<open>d\<close> the entries of
  the output with that date are none when no input entry has it, and otherwise just the
  entry with date \<open>d\<close> that comes last in the input. In particular, of two events with
  the same date only the later one survives, whatever their names.
\<close>

theorem dedupe_last_occurrence_wins: "distinct (map date (dedupe hs)) \<and>
   filter (\<lambda>h. date h = d) (dedupe hs) =
     (case find (\<lambda>h. date h = d) (rev hs) of None \<Rightarrow> [] | Some h \<Rightarrow> [h]) \<and>
   dedupe [\<lparr>date = d, name = n1\<rparr>, \<lparr>date = d, name = n2\<rparr>] = [\<lparr>date = d, name = n2\<rparr>]"
proof -
  let ?al = "dedupe_loop [] hs"
  have dk: "distinct (map fst ?al)" by (rule dedupe_loop_distinct) simp
  have ky: "\<forall>(k, v) \<in> set ?al. k = date v" by (rule dedupe_loop_keyed) simp
  from ky have "map date (map snd ?al) = map fst ?al" by auto
  with dk have 1: "distinct (map date (dedupe hs))" unfolding dedupe_def by metis
  have 2: "filter (\<lambda>h. date h = d) (dedupe hs) =
     (case find (\<lambda>h. date h = d) (rev hs) of None \<Rightarrow> [] | Some h \<Rightarrow> [h])"
    unfolding dedupe_def filter_values_by_key [OF dk ky] map_of_dedupe_loop
    by (simp split: option.splits)
  have 3: "dedupe [\<lparr>date = d, name = n1\<rparr>, \<lparr>date = d, name = n2\<rparr>] = [\<lparr>date = d, name = n2\<rparr>]"
    by (simp add: dedupe_def)
  from 1 2 3 show ?thesis by blast
qed

theorem dedupe_last_occurrence_wins_witness:
  "distinct (map date (dedupe [new_year, foundation_day, new_year_observed])) \<and>
   filter (\<lambda>h. date h = ''2025-01-01T00:00:00.000Z'')
       (dedupe [new_year, foundation_day, new_year_observed]) = [new_year_observed] \<and>
   dedupe [new_year, new_year_observed] = [new_year_observed]"
proof -
  have "find (\<lambda>h. date h = ''2025-01-01T00:00:00.000Z'')
      (rev [new_year, foundation_day, new_year_observed]) = Some new_year_observed"
    by (simp add: new_year_def foundation_day_def new_year_observed_def)
  with dedupe_last_occurrence_wins [of "[new_year, foundation_day, new_year_observed]"
      "''2025-01-01T00:00:00.000Z''" "''New Year''" "''New Year (observed)''"]
  show ?thesis by (simp add: new_year_def new_year_observed_def)
qed

section \<open>Properties of the fetch\<close>

lemma digit_not_space: "is_digit c \<Longrightarrow> \<not> is_space c"
  by (auto simp: is_digit_def is_space_def)

lemma digit_not_sign: "is_digit c \<Longrightarrow> c \<noteq> CHR ''+'' \<and> c \<noteq> CHR ''-''"
  by (auto simp: is_digit_def)

lemma py_int_four_digits:
  "is_digit a \<Longrightarrow> is_digit b \<Longrightarrow> is_digit c \<Longrightarrow> is_digit d \<Longrightarrow>
   py_int [a, b, c, d] =
     Some (int (1000 * digit_val a + 100 * digit_val b + 10 * digit_val c + digit_val d))"
  by (simp add: py_int_def strip_def digit_not_space digit_not_sign parse_nat_def)

lemma in_year_set: "y \<in> year_set s e \<longleftrightarrow> s \<le> y \<and> y \<le> e"
  by (auto simp: year_set_def py_range_def)

lemma in_years_dated:
  "dated_in_year (date h) y \<Longrightarrow> in_years (year_set s e) h = Inr (s \<le> y \<and> y \<le> e)"
  by (auto simp: dated_in_year_def in_years_def py_int_four_digits in_year_set
      split: list.splits)

lemma dated_append: "dated_in_year s y \<Longrightarrow> dated_in_year (s @ t) y"
  by (auto simp: dated_in_year_def split: list.splits)

lemma dated_nonempty: "dated_in_year s y \<Longrightarrow> s \<noteq> []"
  by (auto simp: dated_in_year_def)

lemma filter_years_Inr:
  "filter_years ys hs = Inr kept \<Longrightarrow> kept = filter (\<lambda>h. in_years ys h = Inr True) hs"
  by (induction hs arbitrary: kept) (auto split: sum.splits if_splits)

lemma filter_years_mem:
  "filter_years ys hs = Inr kept \<Longrightarrow> h \<in> set kept \<longleftrightarrow> h \<in> set hs \<and> in_years ys h = Inr True"
  by (auto dest: filter_years_Inr)

text \<open>
  C6. An event whose resolved date is in the year \<open>y\<close> is retained by the year filter
  exactly when \<open>start_year \<le> y \<le> end_year\<close>: the condition of the filter evaluates to
  this without an error, and the event is in the filtered list exactly when it was in the
  list and the year is in the window. This holds for the entries of \<^verbatim>\<open>update_holidays.py\<close>
  and for the rows of \<^verbatim>\<open>holidays_gcal_fetch.py\<close> with the tuple of the years from
  \<open>start_year\<close> to \<open>end_year\<close>. So the years \<open>start_year\<close> and \<open>end_year\<close> themselves are
  kept and \<open>end_year + 1\<close> is not.
\<close>

theorem year_filter_window:
  assumes r: "resolve_date item = Inr date_str" and y: "dated_in_year date_str y"
  shows "(\<exists>h. item_to_holiday item = Inr (Some h) \<and>
            in_years (year_set start_year end_year) h = Inr (start_year \<le> y \<and> y \<le> end_year) \<and>
            (\<forall>hs kept. filter_years (year_set start_year end_year) hs = Inr kept \<longrightarrow>
               (h \<in> set kept \<longleftrightarrow> h \<in> set hs \<and> start_year \<le> y \<and> y \<le> end_year))) \<and>
         (\<exists>r. item_to_row cal item = Inr r \<and>
            in_years (set (py_range start_year (end_year + 1))) r =
              Inr (start_year \<le> y \<and> y \<le> end_year) \<and>
            (\<forall>rs kept. filter_years (set (py_range start_year (end_year + 1))) rs = Inr kept \<longrightarrow>
               (r \<in> set kept \<longleftrightarrow> r \<in> set rs \<and> start_year \<le> y \<and> y \<le> end_year)))"
proof -
  from y have ne: "date_str \<noteq> []" by (rule dated_nonempty)
  let ?h = "\<lparr>date = date_str @ ''T00:00:00.000Z'', name = get_or_empty (summary item)\<rparr>"
  have h: "item_to_holiday item = Inr (Some ?h)"
    using ne r by (simp add: item_to_holiday_def)
  from y have "dated_in_year (date ?h) y"
    by (simp add: dated_append)
  then have dh: "in_years (year_set start_year end_year) ?h = Inr (start_year \<le> y \<and> y \<le> end_year)"
    by (rule in_years_dated)
  have lh: "\<forall>hs kept. filter_years (year_set start_year end_year) hs = Inr kept \<longrightarrow>
      (?h \<in> set kept \<longleftrightarrow> ?h \<in> set hs \<and> start_year \<le> y \<and> y \<le> end_year)"
    using dh by (simp add: filter_years_mem)
  let ?r = "\<lparr>date = date_str, name = get_or_empty (summary item),
      calendarId = cal, gcal_event_id = get_or_empty (event_id item)\<rparr>"
  have rr: "item_to_row cal item = Inr ?r"
    using r by (simp add: item_to_row_def)
  have "dated_in_year (date ?r) y"
    using y by simp
  then have "in_years (year_set start_year end_year) ?r = Inr (start_year \<le> y \<and> y \<le> end_year)"
    by (rule in_years_dated)
  then have dr: "in_years (set (py_range start_year (end_year + 1))) ?r =
      Inr (start_year \<le> y \<and> y \<le> end_year)"
    by (simp add: year_set_def)
  have lr: "\<forall>rs kept. filter_years (set (py_range start_year (end_year + 1))) rs = Inr kept \<longrightarrow>
      (?r \<in> set kept \<longleftrightarrow> ?r \<in> set rs \<and> start_year \<le> y \<and> y \<le> end_year)"
    using dr by (simp add: filter_years_mem)
  from h dh lh have 1: "\<exists>h. item_to_holiday item = Inr (Some h) \<and>
            in_years (year_set start_year end_year) h = Inr (start_year \<le> y \<and> y \<le> end_year) \<and>
            (\<forall>hs kept. filter_years (year_set start_year end_year) hs = Inr kept \<longrightarrow>
               (h \<in> set kept \<longleftrightarrow> h \<in> set hs \<and> start_year \<le> y \<and> y \<le> end_year))"
    by blast
  from rr dr lr have 2: "\<exists>r. item_to_row cal item = Inr r \<and>
            in_years (set (py_range start_year (end_year + 1))) r =
              Inr (start_year \<le> y \<and> y \<le> end_year) \<and>
            (\<forall>rs kept. filter_years (set (py_range start_year (end_year + 1))) rs = Inr kept \<longrightarrow>
               (r \<in> set kept \<longleftrightarrow> r \<in> set rs \<and> start_year \<le> y \<and> y \<le> end_year))"
    by blast
  from 1 2 show ?thesis by blast
qed

theorem year_filter_window_witness:
  "resolve_date labour_day_item = Inr ''2027-05-01'' \<and>
   dated_in_year ''2027-05-01'' 2027 \<and>
   item_to_holiday labour_day_item =
     Inr (Some \<lparr>date = ''2027-05-01T00:00:00.000Z'', name = ''Labour Day''\<rparr>) \<and>
   in_years (year_set 2025 2027) \<lparr>date = ''2027-05-01T00:00:00.000Z'', name = ''Labour Day''\<rparr>
     = Inr True \<and>
   in_years (year_set 2025 2026) \<lparr>date = ''2027-05-01T00:00:00.000Z'', name = ''Labour Day''\<rparr>
     = Inr False \<and>
   in_years (year_set 2027 2030) \<lparr>date = ''2027-05-01T00:00:00.000Z'', name = ''Labour Day''\<rparr>
     = Inr True \<and>
   item_to_row ''cal'' labour_day_item =
     Inr \<lparr>date = ''2027-05-01'', name = ''Labour Day'', calendarId = ''cal'',
          gcal_event_id = ''e1''\<rparr> \<and>
   in_years (set (py_range 2025 (2026 + 1)))
     \<lparr>date = ''2027-05-01'', name = ''Labour Day'', calendarId = ''cal'',
      gcal_event_id = ''e1''\<rparr> = Inr False"
proof -
  have r: "resolve_date labour_day_item = Inr ''2027-05-01''"
    by (simp add: resolve_date_def labour_day_item_def)
  have d: "dated_in_year ''2027-05-01'' 2027"
    by (simp add: dated_in_year_def is_digit_def digit_val_def)
  have h: "item_to_holiday labour_day_item =
      Inr (Some \<lparr>date = ''2027-05-01T00:00:00.000Z'', name = ''Labour Day''\<rparr>)"
    by (simp add: item_to_holiday_def resolve_date_def labour_day_item_def get_or_empty_def)
  have w: "item_to_row ''cal'' labour_day_item =
     Inr \<lparr>date = ''2027-05-01'', name = ''Labour Day'', calendarId = ''cal'',
          gcal_event_id = ''e1''\<rparr>"
    by (simp add: item_to_row_def resolve_date_def labour_day_item_def get_or_empty_def)
  from year_filter_window [OF r d, of 2025 2027 "''cal''"]
    year_filter_window [OF r d, of 2025 2026 "''cal''"]
    year_filter_window [OF r d, of 2027 2030 "''cal''"] r d h w
  show ?thesis by simp
qed

lemma resolve_date_no_start:
  assumes "start item = NoStart \<or> (\<exists>d t. start item = Start d t \<and> no_value d \<and> (t = Absent \<or> t = Text []))"
  shows "resolve_date item = Inr []"
  using assms by (auto simp: resolve_date_def no_value_def)

lemma append_items_append:
  "append_items hs (xs @ ys) =
     (case append_items hs xs of Inl e \<Rightarrow> Inl e | Inr hs' \<Rightarrow> append_items hs' ys)"
  by (induction xs arbitrary: hs) (auto split: sum.splits option.splits)

lemma append_rows_append:
  "append_rows cal rs (xs @ ys) =
     (case append_rows cal rs xs of Inl e \<Rightarrow> Inl e | Inr rs' \<Rightarrow> append_rows cal rs' ys)"
  by (induction xs arbitrary: rs) (auto split: sum.splits)

lemma filter_years_append:
  "filter_years ys (xs @ zs) =
     (case filter_years ys xs of
        Inl e \<Rightarrow> Inl e
      | Inr a \<Rightarrow> (case filter_years ys zs of Inl e \<Rightarrow> Inl e | Inr b \<Rightarrow> Inr (a @ b)))"
  by (induction xs) (auto split: sum.splits)

lemma filter_years_dates:
  "filter_years ys hs = Inr kept \<Longrightarrow> h \<in> set kept \<Longrightarrow> date h \<noteq> []"
  by (auto simp: filter_years_mem in_years_def split: if_splits)

lemma values_dict_set: "set (map snd (dict_set k v ps)) \<subseteq> insert v (set (map snd ps))"
  by (induction ps) auto

lemma values_dedupe_loop:
  "set (map snd (dedupe_loop acc hs)) \<subseteq> set (map snd acc) \<union> set hs"
proof (induction hs arbitrary: acc)
  case Nil
  show ?case by simp
next
  case (Cons h hs)
  from Cons.IH [of "dict_set (date h) h acc"] values_dict_set [of "date h" h acc]
  show ?case by auto
qed

lemma set_dedupe: "set (dedupe hs) \<subseteq> set hs"
  using values_dedupe_loop [of "[]" hs] by (simp add: dedupe_def)

text \<open>
  An item with no \<^verbatim>\<open>start\<close>, or with a date that is absent, \<^verbatim>\<open>null\<close> or empty and a
  \<^verbatim>\<open>dateTime\<close> that is absent or the empty string, is passed over without an error: the
  loop of \<^verbatim>\<open>fetch_holidays_from_gcal\<close> makes no entry of it, and the filter of
  \<^verbatim>\<open>fetch_calendar_holidays\<close> is false on its row without a call of \<^verbatim>\<open>int\<close>. Every entry
  of a result of either fetch has a non-empty date.
\<close>

lemma dateless_item_discarded:
  assumes "start item = NoStart \<or>
      (\<exists>d t. start item = Start d t \<and> no_value d \<and> (t = Absent \<or> t = Text []))"
  shows "item_to_holiday item = Inr None"
    and "append_items holidays (item # rest) = append_items holidays rest"
    and "\<exists>r. item_to_row cal item = Inr r \<and> in_years years r = Inr False"
proof -
  from assms have e: "resolve_date item = Inr []" by (rule resolve_date_no_start)
  then show 1: "item_to_holiday item = Inr None" by (simp add: item_to_holiday_def)
  then show "append_items holidays (item # rest) = append_items holidays rest" by simp
  from e show "\<exists>r. item_to_row cal item = Inr r \<and> in_years years r = Inr False"
    by (simp add: in_years_def item_to_row_def)
qed

lemma fetch_results_dated:
  "fetch_holidays_from_gcal fuel http_get cal api_key start_year end_year = Some (Inr result)
     \<Longrightarrow> h \<in> set result \<Longrightarrow> date h \<noteq> []"
proof -
  assume r: "fetch_holidays_from_gcal fuel http_get cal api_key start_year end_year
      = Some (Inr result)" and h: "h \<in> set result"
  from r obtain holidays' filtered
    where f: "filter_years (year_set start_year end_year) holidays' = Inr filtered"
      and d: "result = dedupe filtered"
    by (auto simp: fetch_holidays_from_gcal_def split: option.splits sum.splits)
  from h d set_dedupe have "h \<in> set filtered" by blast
  with f show "date h \<noteq> []" by (rule filter_years_dates)
qed

lemma fetch_rows_dated:
  "fetch_calendar_holidays fuel http_get cal api_key year_list = Some (Inr rows)
     \<Longrightarrow> r \<in> set rows \<Longrightarrow> date r \<noteq> []"
proof -
  assume a: "fetch_calendar_holidays fuel http_get cal api_key year_list = Some (Inr rows)"
    and r: "r \<in> set rows"
  from a obtain results where "filter_years (set year_list) results = Inr rows"
    by (auto simp: fetch_calendar_holidays_def split: if_splits option.splits sum.splits)
  from this r show "date r \<noteq> []" by (rule filter_years_dates)
qed

text \<open>
  C10. The item \<^verbatim>\<open>{"start": {"dateTime": null}}\<close> carries neither a date nor a dateTime
  value, and the fetch does not pass it over: the body of the loop raises \<^verbatim>\<open>TypeError\<close>
  on it (\<^verbatim>\<open>start.get("dateTime", "")\<close> is \<^verbatim>\<open>None\<close>, which \<^verbatim>\<open>[:10]\<close> cannot slice), and so
  does the whole fetch of a page that holds it, in \<^verbatim>\<open>update_holidays.py\<close> and in
  \<^verbatim>\<open>holidays_gcal_fetch.py\<close>. On the item \<^verbatim>\<open>{"start": null}\<close> the body raises
  \<^verbatim>\<open>AttributeError\<close>.
\<close>

theorem null_time_item_raises:
  "no_start_value null_time_item \<and>
   item_to_holiday null_time_item = Inl TypeError \<and>
   fetch_holidays_from_gcal 1 null_time_http ''cal'' ''key'' 2025 2027 = Some (Inl TypeError) \<and>
   item_to_row ''cal'' null_time_item = Inl TypeError \<and>
   fetch_calendar_holidays 1 null_time_http ''cal'' ''key'' [2025, 2026, 2027]
     = Some (Inl TypeError) \<and>
   no_start_value null_start_item \<and>
   item_to_holiday null_start_item = Inl AttributeError \<and>
   item_to_row ''cal'' null_start_item = Inl AttributeError"
proof -
  have 1: "no_start_value null_time_item"
    by (simp add: no_start_value_def no_value_def null_time_item_def)
  have 2: "item_to_holiday null_time_item = Inl TypeError"
    by (simp add: item_to_holiday_def resolve_date_def null_time_item_def)
  have 3: "fetch_holidays_from_gcal 1 null_time_http ''cal'' ''key'' 2025 2027
      = Some (Inl TypeError)"
    by (simp add: fetch_holidays_from_gcal_def null_time_http_def item_to_holiday_def
        resolve_date_def null_time_item_def labour_day_item_def)
  have 4: "item_to_row ''cal'' null_time_item = Inl TypeError"
    by (simp add: item_to_row_def resolve_date_def null_time_item_def)
  have 5: "fetch_calendar_holidays 1 null_time_http ''cal'' ''key'' [2025, 2026, 2027]
      = Some (Inl TypeError)"
    by (simp add: fetch_calendar_holidays_def null_time_http_def item_to_row_def
        resolve_date_def null_time_item_def labour_day_item_def)
  have 6: "no_start_value null_start_item"
    by (simp add: no_start_value_def null_start_item_def)
  have 7: "item_to_holiday null_start_item = Inl AttributeError"
    by (simp add: item_to_holiday_def resolve_date_def null_start_item_def)
  have 8: "item_to_row ''cal'' null_start_item = Inl AttributeError"
    by (simp add: item_to_row_def resolve_date_def null_start_item_def)
  from 1 2 3 4 5 6 7 8 show ?thesis by blast
qed

lemma example_fetch:
  "fetch_holidays_from_gcal 5 example_http ''cal'' ''key'' 2025 2027 =
     Some (Inr [\<lparr>date = ''2027-05-01T00:00:00.000Z'', name = ''Labour Day''\<rparr>,
                \<lparr>date = ''2026-01-01T00:00:00.000Z'', name = []\<rparr>])"
  by code_simp

section \<open>Properties of the dataset files\<close>




section \<open>Properties of update_country_holidays and the loop of main\<close>

lemma update_recreate_conflict:
  assumes "files (country_file json_dir country_code) = Some c"
  shows "update_country_holidays fuel http_get json_load json_dump files country_code
           json_dir api_key start_year end_year True =
         Some (if map_of CALENDAR_MAPPING country_code = None then Returns False files
               else Raises FileExistsError files)"
  using assms by (simp add: update_country_holidays_def Let_def split: option.splits)

text \<open>
  C7. Recreate mode without the overwrite directive, on a key whose file exists: the
  call of \<^verbatim>\<open>update_country_holidays\<close> raises \<^verbatim>\<open>FileExistsError\<close> (for a key outside the
  calendar table it returns \<^verbatim>\<open>False\<close>), for every source and before any request; the loop
  of \<^verbatim>\<open>main\<close> counts the key as an error and the file system, so the file of the key, is
  the one before the call.
\<close>

theorem recreate_conflict_keeps_file:
  assumes "files_of st (country_file json_dir country_code) = Some c"
  shows "update_country_holidays fuel http_get json_load json_dump (files_of st) country_code
           json_dir api_key start_year end_year True =
         Some (if map_of CALENDAR_MAPPING country_code = None then Returns False (files_of st)
               else Raises FileExistsError (files_of st)) \<and>
         main_loop_body fuel http_get json_load json_dump json_dir api_key start_year end_year
           True False st country_code = Some (st\<lparr>error_count := error_count st + 1\<rparr>)"
proof -
  note u = update_recreate_conflict [where files = "files_of st", OF assms,
      of fuel http_get json_load json_dump api_key start_year end_year]
  have "main_loop_body fuel http_get json_load json_dump json_dir api_key start_year end_year
      True False st country_code = Some (st\<lparr>error_count := error_count st + 1\<rparr>)"
    unfolding main_loop_body_def Let_def using u by simp
  with u show ?thesis by simp
qed

lemma update_fetch_fails:
  assumes "map_of CALENDAR_MAPPING country_code = Some info"
    and "fetch_holidays_from_gcal fuel http_get (calendar_id info) api_key start_year end_year
           = Some (Inl err)"
  shows "update_country_holidays fuel http_get json_load json_dump files country_code
           json_dir api_key start_year end_year recreate =
         Some (if recreate \<and> files (country_file json_dir country_code) \<noteq> None
               then Raises FileExistsError files else Returns False files)"
  using assms by (simp add: update_country_holidays_def Let_def)

lemma main_loop_body_fetch_fails:
  assumes "map_of CALENDAR_MAPPING country_code = Some info"
    and "fetch_holidays_from_gcal fuel http_get (calendar_id info) api_key start_year end_year
           = Some (Inl err)"
  shows "main_loop_body fuel http_get json_load json_dump json_dir api_key start_year end_year
           recreate force st country_code =
         Some (st\<lparr>error_count := error_count st + 1,
                   files_of := (if recreate \<and> force
                                then (files_of st)(country_file json_dir country_code := None)
                                else files_of st)\<rparr>)"
proof -
  let ?p = "country_file json_dir country_code"
  let ?files1 = "if recreate \<and> force \<and> files_of st ?p \<noteq> None
                 then (files_of st)(?p := None) else files_of st"
  have u: "update_country_holidays fuel http_get json_load json_dump ?files1 country_code
      json_dir api_key start_year end_year recreate =
      Some (if recreate \<and> ?files1 ?p \<noteq> None
            then Raises FileExistsError ?files1 else Returns False ?files1)"
    by (rule update_fetch_fails [OF assms])
  have f: "?files1 = (if recreate \<and> force then (files_of st)(?p := None) else files_of st)"
    by auto
  have "main_loop_body fuel http_get json_load json_dump json_dir api_key start_year end_year
      recreate force st country_code =
      Some (st\<lparr>error_count := error_count st + 1, files_of := ?files1\<rparr>)"
    unfolding main_loop_body_def Let_def u by simp
  with f show ?thesis by simp
qed

lemma update_frame:
  "update_country_holidays fuel http_get json_load json_dump files country_code
     json_dir api_key start_year end_year recreate = Some r \<Longrightarrow>
   p \<noteq> country_file json_dir country_code \<Longrightarrow>
   (case r of Returns b files' \<Rightarrow> files' p = files p | Raises e files' \<Rightarrow> files' p = files p)"
  by (auto simp: update_country_holidays_def Let_def save_holidays_to_json_def
      split: option.splits if_splits sum.splits prod.splits)

lemma main_loop_body_frame:
  "main_loop_body fuel http_get json_load json_dump json_dir api_key start_year end_year
     recreate force st country_code = Some st' \<Longrightarrow>
   p \<noteq> country_file json_dir country_code \<Longrightarrow> files_of st' p = files_of st p"
  unfolding main_loop_body_def Let_def
  by (auto split: option.splits result.splits bool.splits if_splits dest!: update_frame [where p = p])


lemma country_file_inj:
  assumes "a \<noteq> []" "hd a \<noteq> CHR ''/''" "b \<noteq> []" "hd b \<noteq> CHR ''/''"
    and "country_file json_dir a = country_file json_dir b"
  shows "a = b"
proof -
  from assms(1,2) have a: "hd (a @ ''.json'') \<noteq> CHR ''/''" by simp
  from assms(3,4) have b: "hd (b @ ''.json'') \<noteq> CHR ''/''" by simp
  from assms(5) a b have "a @ ''.json'' = b @ ''.json''"
    by (auto simp: country_file_def path_join_def split: if_splits)
  then show ?thesis by simp
qed

lemma main_loop_file_kept:
  assumes "\<And>s c s'. c \<in> set codes \<Longrightarrow>
      main_loop_body fuel http_get json_load json_dump json_dir api_key start_year end_year
        recreate force s c = Some s' \<Longrightarrow> files_of s' p = files_of s p"
    and "main_loop fuel http_get json_load json_dump json_dir api_key start_year end_year
        recreate force st codes = Some st'"
  shows "files_of st' p = files_of st p"
  using assms
proof (induction codes arbitrary: st)
  case Nil
  then show ?case by simp
next
  case (Cons c codes)
  from Cons.prems(2) obtain s1
    where b: "main_loop_body fuel http_get json_load json_dump json_dir api_key start_year
        end_year recreate force st c = Some s1"
      and r: "main_loop fuel http_get json_load json_dump json_dir api_key start_year end_year
        recreate force s1 codes = Some st'"
    by (auto split: option.splits)
  from Cons.prems(1) [OF _ b] have 1: "files_of s1 p = files_of st p" by simp
  have "files_of st' p = files_of s1 p"
    by (rule Cons.IH [OF _ r]) (rule Cons.prems(1), simp_all)
  with 1 show ?case by simp
qed

text \<open>
  C4, as the code has it. When the fetch for a key fails, the loop of \<^verbatim>\<open>main\<close> counts the
  key as an error and writes nothing. In append mode and in recreate mode without the
  overwrite directive the file system is the one before; so, over a whole run, the file of
  the key is as it was before the run began. Under recreate with the overwrite directive
  the file of the key has been removed before the fetch and stays absent.
\<close>

theorem fetch_failure_writes_nothing:
  assumes m: "map_of CALENDAR_MAPPING country_code = Some info"
    and f: "fetch_holidays_from_gcal fuel http_get (calendar_id info) api_key start_year end_year
           = Some (Inl err)"
  shows "main_loop_body fuel http_get json_load json_dump json_dir api_key start_year end_year
           recreate force st country_code =
         Some (st\<lparr>error_count := error_count st + 1,
                   files_of := (if recreate \<and> force
                                then (files_of st)(country_file json_dir country_code := None)
                                else files_of st)\<rparr>) \<and>
         (\<not> (recreate \<and> force) \<and> country_code \<in> set country_codes \<and>
          (\<forall>c \<in> set country_codes. c \<noteq> [] \<and> hd c \<noteq> CHR ''/'') \<and>
          main_loop fuel http_get json_load json_dump json_dir api_key start_year end_year
            recreate force st0 country_codes = Some st1 \<longrightarrow>
          files_of st1 (country_file json_dir country_code) =
            files_of st0 (country_file json_dir country_code))"
proof (intro conjI impI)
  show "main_loop_body fuel http_get json_load json_dump json_dir api_key start_year end_year
           recreate force st country_code =
         Some (st\<lparr>error_count := error_count st + 1,
                   files_of := (if recreate \<and> force
                                then (files_of st)(country_file json_dir country_code := None)
                                else files_of st)\<rparr>)"
    by (rule main_loop_body_fetch_fails [OF m f])
next
  assume a: "\<not> (recreate \<and> force) \<and> country_code \<in> set country_codes \<and>
      (\<forall>c \<in> set country_codes. c \<noteq> [] \<and> hd c \<noteq> CHR ''/'') \<and>
      main_loop fuel http_get json_load json_dump json_dir api_key start_year end_year
        recreate force st0 country_codes = Some st1"
  let ?p = "country_file json_dir country_code"
  show "files_of st1 ?p = files_of st0 ?p"
  proof (rule main_loop_file_kept)
    show "main_loop fuel http_get json_load json_dump json_dir api_key start_year end_year
        recreate force st0 country_codes = Some st1"
      using a by simp
  next
    fix s c s'
    assume c: "c \<in> set country_codes"
      and b: "main_loop_body fuel http_get json_load json_dump json_dir api_key start_year
        end_year recreate force s c = Some s'"
    show "files_of s' ?p = files_of s ?p"
    proof (cases "c = country_code")
      case True
      with b main_loop_body_fetch_fails [OF m f, of json_load json_dump json_dir recreate force s] a
      show ?thesis by auto
    next
      case False
      with a c have "?p \<noteq> country_file json_dir c"
        using country_file_inj [of country_code c json_dir] by blast
      with b show ?thesis by (rule main_loop_body_frame)
    qed
  qed
qed

text \<open>
  Recreate with the overwrite directive and a source that fails: the file of \<^verbatim>\<open>JP\<close>,
  present before, is gone after.
\<close>

theorem fetch_failure_with_force_removes_file:
  "fetch_holidays_from_gcal 1 failing_http
       ''ja.japanese.official#holiday@group.v.calendar.google.com'' ''key'' 2025 2027
     = Some (Inl (RuntimeError ''Network error'')) \<and>
   example_files ''json/JP.json'' = Some (Document (JArr [entry_json new_year])) \<and>
   map_option (\<lambda>st. files_of st ''json/JP.json'')
     (main_loop_body 1 failing_http read_content write_content ''json'' ''key'' 2025 2027
        True True example_run ''JP'') = Some None"
  by (simp add: fetch_holidays_from_gcal_def failing_http_def example_files_def
      main_loop_body_def update_country_holidays_def CALENDAR_MAPPING_def example_run_def
      country_file_def path_join_def)

theorem recreate_conflict_keeps_file_witness:
  "files_of example_run (country_file ''json'' ''JP'') =
     Some (Document (JArr [entry_json new_year])) \<and>
   update_country_holidays 0 failing_http read_content write_content (files_of example_run)
     ''JP'' ''json'' ''key'' 2025 2027 True = Some (Raises FileExistsError example_files) \<and>
   main_loop_body 0 failing_http read_content write_content ''json'' ''key'' 2025 2027
     True False example_run ''JP'' = Some (example_run\<lparr>error_count := 1\<rparr>)"
proof -
  have e: "files_of example_run (country_file ''json'' ''JP'') =
      Some (Document (JArr [entry_json new_year]))"
    by (simp add: example_run_def example_files_def country_file_def path_join_def)
  have m: "map_of CALENDAR_MAPPING ''JP'' \<noteq> None"
    by (simp add: CALENDAR_MAPPING_def)
  from recreate_conflict_keeps_file [OF e, of 0 failing_http read_content write_content
      "''key''" 2025 2027] e m
  show ?thesis by (simp add: example_run_def)
qed

theorem fetch_failure_writes_nothing_witness:
  "map_of CALENDAR_MAPPING ''JP'' =
     Some \<lparr>calendar_id = ''ja.japanese.official#holiday@group.v.calendar.google.com'',
           lang = ''ja''\<rparr> \<and>
   fetch_holidays_from_gcal 1 failing_http
       ''ja.japanese.official#holiday@group.v.calendar.google.com'' ''key'' 2025 2027
     = Some (Inl (RuntimeError ''Network error'')) \<and>
   main_loop_body 1 failing_http read_content write_content ''json'' ''key'' 2025 2027
     False False example_run ''JP'' = Some (example_run\<lparr>error_count := 1\<rparr>) \<and>
   main_loop_body 1 failing_http read_content write_content ''json'' ''key'' 2025 2027
     True True example_run ''JP'' =
     Some (example_run\<lparr>error_count := 1,
             files_of := example_files(country_file ''json'' ''JP'' := None)\<rparr>)"
proof -
  have m: "map_of CALENDAR_MAPPING ''JP'' =
      Some \<lparr>calendar_id = ''ja.japanese.official#holiday@group.v.calendar.google.com'',
            lang = ''ja''\<rparr>"
    by (simp add: CALENDAR_MAPPING_def)
  have f: "fetch_holidays_from_gcal 1 failing_http
      (calendar_id \<lparr>calendar_id = ''ja.japanese.official#holiday@group.v.calendar.google.com'',
            lang = ''ja''\<rparr>) ''key'' 2025 2027
      = Some (Inl (RuntimeError ''Network error''))"
    by (simp add: fetch_holidays_from_gcal_def failing_http_def)
  from fetch_failure_writes_nothing [OF m f, of read_content write_content "''json''"
      False False example_run]
    fetch_failure_writes_nothing [OF m f, of read_content write_content "''json''"
      True True example_run] m f
  show ?thesis by (simp add: example_run_def)
qed

section \<open>The merge on stored values\<close>

text \<open>
  On a stored list of entries of the fetch, the merge on stored values is
  \<^const>\<open>merge_holidays\<close>.
\<close>

lemma stored_key_entry:
  "stored_key (entry_json h) = Inr (JStr (date h), JStr (name h))"
  by (simp add: stored_key_def py_subscript_def entry_json_def hashable_def)

lemma stored_keys_entries:
  "stored_keys (map entry_json hs) = Inr (map (\<lambda>h. (JStr (date h), JStr (name h))) hs)"
  by (induction hs) (simp_all add: stored_key_entry)

lemma merge_stored_loop_entries:
  "merge_stored_loop ((\<lambda>(d, n). (JStr d, JStr n)) ` ks)
       (map (\<lambda>h. (JStr (date h), entry_json h)) merged) new =
     map (\<lambda>h. (JStr (date h), entry_json h)) (merge_loop ks merged new)"
proof (induction new arbitrary: ks merged)
  case Nil
  show ?case by simp
next
  case (Cons h new)
  have m: "(JStr (date h), JStr (name h)) \<in> (\<lambda>(d, n). (JStr d, JStr n)) ` ks
      \<longleftrightarrow> holiday_key h \<in> ks"
    by (auto simp: holiday_key_def)
  show ?case
  proof (cases "holiday_key h \<in> ks")
    case True
    with m Cons.IH [of ks merged] show ?thesis by simp
  next
    case False
    have i: "insert (JStr (date h), JStr (name h)) ((\<lambda>(d, n). (JStr d, JStr n)) ` ks) =
        (\<lambda>(d, n). (JStr d, JStr n)) ` insert (holiday_key h) ks"
      by (simp add: holiday_key_def)
    from False m Cons.IH [of "insert (holiday_key h) ks" "merged @ [h]"]
    show ?thesis by (simp add: i del: image_insert)
  qed
qed

lemma insort_key_map:
  "insort_key f (g x) (map g ys) = map g (insort_key (\<lambda>y. f (g y)) x ys)"
  by (induction ys) simp_all

lemma sort_key_map:
  "sort_key f (map g xs) = map g (sort_key (\<lambda>y. f (g y)) xs)"
  by (induction xs) (simp_all add: insort_key_map)

lemma sort_key_short: "length xs < 2 \<Longrightarrow> sort_key f xs = xs"
  by (cases xs) (auto simp: less_Suc_eq)

lemma sort_by_date_entries:
  "sort_by_date (map (\<lambda>h. (JStr (date h), entry_json h)) hs) =
     Inr (map entry_json (sort_key date hs))"
proof (cases "length hs < 2")
  case True
  then show ?thesis
    by (simp add: sort_by_date_def sort_key_short comp_def)
next
  case False
  have "list_all (\<lambda>p. is_text (fst p)) (map (\<lambda>h. (JStr (date h), entry_json h)) hs)"
    by (simp add: list_all_iff is_text_def)
  with False show ?thesis
    by (simp add: sort_by_date_def sort_key_map text_of_def comp_def)
qed

lemma merge_stored_entries:
  "merge_stored (map entry_json existing) new_holidays =
     Inr (map entry_json (merge_holidays existing new_holidays))"
proof -
  let ?J = "\<lambda>(d, n). (JStr d, JStr n)"
  let ?keys = "map (\<lambda>h. (JStr (date h), JStr (name h))) existing"
  have k: "set (map (\<lambda>(d, n). (as_member d, as_member n)) ?keys) =
      ?J ` set (map holiday_key existing)"
    by (auto simp: as_member_def holiday_key_def image_iff)
  have z: "zip (map fst ?keys) (map entry_json existing) =
      map (\<lambda>h. (JStr (date h), entry_json h)) existing"
    by (induction existing) simp_all
  show ?thesis
    unfolding merge_stored_def stored_keys_entries
    by (simp only: sum.case k z merge_stored_loop_entries sort_by_date_entries
        merge_holidays_def)
qed

section \<open>Properties of compare_snapshots\<close>

lemma check_entries_errors:
  "fst (check_entries c as bs (errs, st)) =
     errs @ concat (map (\<lambda>b. case find (\<lambda>a. create_holiday_key a = create_holiday_key b) as of
                                 None \<Rightarrow> []
                               | Some a \<Rightarrow> if b = a then [] else [EntryModified c b a]) bs)"
proof (induction bs arbitrary: errs st)
  case Nil
  show ?case by simp
next
  case (Cons b bs)
  show ?case
  proof (cases "find (\<lambda>a. create_holiday_key a = create_holiday_key b) as")
    case None
    then show ?thesis by (simp add: Cons.IH)
  next
    case (Some a)
    then show ?thesis by (simp add: Cons.IH)
  qed
qed

lemma fst_case_pair: "fst (case p of (a, b) \<Rightarrow> (a, g a b)) = fst p"
  by (cases p) simp

lemma compare_country_errors:
  "fst (compare_country after (errs, st) (c, bs)) =
     errs @ (case map_of after c of
               None \<Rightarrow> [CountryMissing c]
             | Some as \<Rightarrow>
                 map (EntryDeleted c) (keys_minus bs as) @
                 concat (map (\<lambda>b. case find (\<lambda>a. create_holiday_key a = create_holiday_key b) as of
                                      None \<Rightarrow> []
                                    | Some a \<Rightarrow> if b = a then [] else [EntryModified c b a]) bs))"
proof (cases "map_of after c")
  case None
  then show ?thesis by (simp add: compare_country_def)
next
  case (Some as)
  show ?thesis
    by (simp add: compare_country_def Let_def Some fst_case_pair check_entries_errors)
qed


lemma foldl_compare_country_errors:
  "fst (foldl (compare_country after) (errs, st) before) =
     errs @ concat (map (\<lambda>(c, bs). fst (compare_country after ([], st0) (c, bs))) before)"
proof (induction before arbitrary: errs st)
  case Nil
  show ?case by simp
next
  case (Cons item before)
  obtain c bs where i: "item = (c, bs)" by (cases item)
  obtain e1 s1 where r: "compare_country after (errs, st) (c, bs) = (e1, s1)"
    by (cases "compare_country after (errs, st) (c, bs)")
  have "e1 = fst (compare_country after (errs, st) (c, bs))" using r by simp
  also have "\<dots> = errs @ fst (compare_country after ([], st0) (c, bs))"
    by (simp add: compare_country_errors)
  finally have e1: "e1 = errs @ fst (compare_country after ([], st0) (c, bs))" .
  show ?case
    by (simp add: i r Cons.IH e1)
qed


lemma errors_compare_snapshots:
  "errors (compare_snapshots before after) =
     concat (map (\<lambda>(c, bs). fst (compare_country after ([], st0) (c, bs))) before)"
proof -
  obtain errs st where r: "foldl (compare_country after)
      ([], \<lparr>countries_checked = 0, total_entries_before = 0, total_entries_after = 0,
            unchanged_entries = 0, new_entries = 0, modified_entries = 0,
            deleted_entries = 0\<rparr>) before = (errs, st)"
    by (cases "foldl (compare_country after)
      ([], \<lparr>countries_checked = 0, total_entries_before = 0, total_entries_after = 0,
            unchanged_entries = 0, new_entries = 0, modified_entries = 0,
            deleted_entries = 0\<rparr>) before")
  have "fst (errs, st) =
      [] @ concat (map (\<lambda>(c, bs). fst (compare_country after ([], st0) (c, bs))) before)"
    unfolding r [symmetric] by (rule foldl_compare_country_errors)
  then have "errs = concat (map (\<lambda>(c, bs). fst (compare_country after ([], st0) (c, bs))) before)"
    by simp
  with r show ?thesis by (simp add: compare_snapshots_def)
qed

lemma passed_iff: "passed (compare_snapshots before after) \<longleftrightarrow>
    errors (compare_snapshots before after) = []"
  by (simp add: compare_snapshots_def split: prod.splits)

lemma no_deleted_among_modified:
  "filter is_deleted (concat (map (\<lambda>b. case find (\<lambda>a. create_holiday_key a = create_holiday_key b) as of
                                      None \<Rightarrow> []
                                    | Some a \<Rightarrow> if b = a then [] else [EntryModified c b a]) bs)) = []"
  by (induction bs) (auto split: option.splits)

lemma deleted_of_country:
  "filter is_deleted (fst (compare_country after ([], st) (c, bs))) =
     (case map_of after c of
        None \<Rightarrow> []
      | Some as \<Rightarrow> map (EntryDeleted c) (keys_minus bs as))"
proof (cases "map_of after c")
  case None
  then show ?thesis by (simp add: compare_country_errors)
next
  case (Some as)
  have "filter is_deleted (map (EntryDeleted c) (keys_minus bs as)) =
      map (EntryDeleted c) (keys_minus bs as)"
    by (induction "keys_minus bs as") auto
  with Some show ?thesis
    by (simp add: compare_country_errors no_deleted_among_modified)
qed

lemma keys_minus_self: "keys_minus bs bs = []"
  by (simp add: keys_minus_def)

lemma remdups_all_equal: "xs \<noteq> [] \<Longrightarrow> \<forall>x \<in> set xs. x = k \<Longrightarrow> remdups xs = [k]"
proof (induction xs)
  case Nil
  then show ?case by simp
next
  case (Cons x xs)
  then show ?case by (cases xs) auto
qed

lemma keys_minus_dropped:
  assumes "k \<in> set (map create_holiday_key bs)"
  shows "keys_minus bs (filter (\<lambda>h. create_holiday_key h \<noteq> k) bs) = [k]"
proof -
  let ?as = "filter (\<lambda>h. create_holiday_key h \<noteq> k) bs"
  have s: "set (map create_holiday_key ?as) = set (map create_holiday_key bs) - {k}"
    by auto
  have f: "filter (\<lambda>x. x \<notin> set (map create_holiday_key ?as)) (map create_holiday_key bs) =
      filter (\<lambda>x. x = k) (map create_holiday_key bs)"
    unfolding s by (rule filter_cong) auto
  have n: "filter (\<lambda>x. x = k) (map create_holiday_key bs) \<noteq> []"
    using assms by (auto simp: filter_empty_conv)
  have "\<forall>x \<in> set (filter (\<lambda>x. x = k) (map create_holiday_key bs)). x = k"
    by simp
  with n have "remdups (filter (\<lambda>x. x = k) (map create_holiday_key bs)) = [k]"
    by (rule remdups_all_equal)
  with f show ?thesis
    unfolding keys_minus_def by (simp only:)
qed

lemma concat_single:
  assumes "distinct (map fst xs)" "(c, v) \<in> set xs"
    and "\<forall>(c', v') \<in> set xs. c' \<noteq> c \<longrightarrow> f (c', v') = []"
  shows "concat (map f xs) = f (c, v)"
proof -
  from assms(2) obtain ys zs where xs: "xs = ys @ (c, v) # zs"
    by (auto dest: split_list)
  from assms(1) xs have nc: "c \<notin> fst ` set ys" "c \<notin> fst ` set zs"
    by auto
  have "f y = []" if "y \<in> set ys \<union> set zs" for y
  proof -
    obtain c' v' where y: "y = (c', v')" by (cases y)
    with that nc have "c' \<noteq> c" by force
    moreover from that xs have "y \<in> set xs" by auto
    ultimately show ?thesis using assms(3) y by blast
  qed
  then have a: "concat (map f ys) = []" and b: "concat (map f zs) = []"
    by simp_all
  show ?thesis
    unfolding xs by (simp only: map_append list.map concat_append concat.simps a b
        append_Nil append_Nil2)
qed

lemma unchanged_when_keys_unique:
  assumes "inj_on create_holiday_key (set bs)" "set as \<subseteq> set bs"
  shows "concat (map (\<lambda>b. case find (\<lambda>a. create_holiday_key a = create_holiday_key b) as of
                              None \<Rightarrow> []
                            | Some a \<Rightarrow> if b = a then [] else [EntryModified c b a]) bs) = []"
proof -
  have "(case find (\<lambda>a. create_holiday_key a = create_holiday_key b) as of
           None \<Rightarrow> []
         | Some a \<Rightarrow> if b = a then [] else [EntryModified c b a]) = []" if "b \<in> set bs" for b
  proof (cases "find (\<lambda>a. create_holiday_key a = create_holiday_key b) as")
    case None
    then show ?thesis by simp
  next
    case (Some a)
    then have "a \<in> set as" "create_holiday_key a = create_holiday_key b"
      by (auto simp: find_Some_iff)
    with assms that have "a = b" by (auto dest: inj_onD)
    with Some show ?thesis by simp
  qed
  then show ?thesis by simp
qed


text \<open>
  When the after snapshot of one country is the before snapshot without the entries of
  one key of the validator (\<^verbatim>\<open>date:name\<close>), and the other countries are as before, the
  comparison records exactly one deleted-entry error and the result is FAILED; it records
  no other error when the entries of each country have pairwise different keys.
\<close>

lemma compare_snapshots_dropped_entry:
  assumes d: "distinct (map fst before)"
    and m: "(c, bs) \<in> set before"
    and k: "k \<in> set (map create_holiday_key bs)"
    and a: "map_of after c = Some (filter (\<lambda>h. create_holiday_key h \<noteq> k) bs)"
    and o: "\<forall>(c', bs') \<in> set before. c' \<noteq> c \<longrightarrow> map_of after c' = Some bs'"
  shows "(passed (compare_snapshots before after) \<longleftrightarrow>
            errors (compare_snapshots before after) = []) \<and>
         filter is_deleted (errors (compare_snapshots before after)) = [EntryDeleted c k] \<and>
         \<not> passed (compare_snapshots before after) \<and>
         ((\<forall>(c', bs') \<in> set before. inj_on create_holiday_key (set bs')) \<longrightarrow>
            errors (compare_snapshots before after) = [EntryDeleted c k])"
proof -
  let ?r = "compare_snapshots before after"
  let ?st0 = "\<lparr>countries_checked = 0, total_entries_before = 0, total_entries_after = 0,
            unchanged_entries = 0, new_entries = 0, modified_entries = 0,
            deleted_entries = 0\<rparr>"
  let ?E = "\<lambda>(c, bs). fst (compare_country after ([], ?st0) (c, bs))"
  let ?D = "\<lambda>(c, bs). filter is_deleted (fst (compare_country after ([], ?st0) (c, bs)))"
  have e: "errors ?r = concat (map ?E before)"
    by (rule errors_compare_snapshots)
  have 1: "passed ?r \<longleftrightarrow> errors ?r = []" by (rule passed_iff)
  have "filter is_deleted (errors ?r) = concat (map ?D before)"
    unfolding e by (simp add: filter_concat comp_def case_prod_unfold)
  also have "\<dots> = ?D (c, bs)"
  proof (rule concat_single [OF d m])
    show "\<forall>(c', bs') \<in> set before. c' \<noteq> c \<longrightarrow> ?D (c', bs') = []"
      using o by (auto simp: deleted_of_country keys_minus_self)
  qed
  also have "\<dots> = [EntryDeleted c k]"
    by (simp add: deleted_of_country a keys_minus_dropped [OF k])
  finally have 2: "filter is_deleted (errors ?r) = [EntryDeleted c k]" .
  from 2 have "errors ?r \<noteq> []" by auto
  with 1 have 3: "\<not> passed ?r" by simp
  have 4: "errors ?r = [EntryDeleted c k]"
    if u: "\<forall>(c', bs') \<in> set before. inj_on create_holiday_key (set bs')"
  proof -
    have "errors ?r = ?E (c, bs)"
      unfolding e
    proof (rule concat_single [OF d m])
      show "\<forall>(c', bs') \<in> set before. c' \<noteq> c \<longrightarrow> ?E (c', bs') = []"
      proof (clarify)
        fix c' bs'
        assume i: "(c', bs') \<in> set before" and n: "c' \<noteq> c"
        with o have s: "map_of after c' = Some bs'" by auto
        from u i have "inj_on create_holiday_key (set bs')" by auto
        then show "fst (compare_country after ([], ?st0) (c', bs')) = []"
          by (simp add: compare_country_errors s keys_minus_self unchanged_when_keys_unique)
      qed
    qed
    moreover from u m have "inj_on create_holiday_key (set bs)" by auto
    then have "?E (c, bs) = [EntryDeleted c k]"
      by (simp add: compare_country_errors a keys_minus_dropped [OF k]
          unchanged_when_keys_unique)
    ultimately show ?thesis by simp
  qed
  from 1 2 3 4 show ?thesis by blast
qed

text \<open>
  Entries whose dates have the same length, as the dates of one fixed format have, have
  the same key only when they are the same entry.
\<close>

lemma create_holiday_key_inj:
  "length (date a) = length (date b) \<Longrightarrow> create_holiday_key a = create_holiday_key b \<Longrightarrow> a = b"
  by (cases a, cases b) (simp add: create_holiday_key_def)


end
